theory Spec2Isabelle
  imports Main "HOL-Library.Word" "HOL-Library.AList" "HOL-Library.Sublist"
begin

section \<open>Strings and JSON values\<close>

text \<open>
  A JavaScript string is a sequence of UTF-16 code units. The regular expressions of
  \<^verbatim>\<open>server.js\<close> carry no \<^verbatim>\<open>u\<close> flag, so they too work on code units. The Arabic
  literals of the source lie in the Basic Multilingual Plane: one code unit per letter,
  written here in hexadecimal.
\<close>

type_synonym cu = "16 word"
type_synonym jsstring = "cu list"

definition asc :: "string \<Rightarrow> jsstring" where
  \<comment> \<open>the code units of an ASCII literal\<close>
  "asc s = map of_char s"

text \<open>
  A JSON number is an IEEE double. The program never computes with the numbers of a
  request or of a generated result: it only asks whether one is truthy and turns it into
  text, and both are taken from the platform.
\<close>

typedecl double

datatype json =
    JNull
  | JBool bool
  | JNum double
  | JStr jsstring
  | JArr "json list"
  | JObj "(jsstring \<times> json) list"

text \<open>
  A value read from a property is a \<open>json option\<close>: \<open>None\<close> is \<^verbatim>\<open>undefined\<close>.
  An object is the list of its own properties in insertion order; a read takes the first
  entry of a key (\<^verbatim>\<open>JSON.parse\<close> and object literals give objects whose keys are distinct).
\<close>

datatype exn =
    CannotRead string    \<comment> \<open>TypeError: property read on \<^verbatim>\<open>undefined\<close> or \<^verbatim>\<open>null\<close>\<close>
  | NotAFunction string  \<comment> \<open>TypeError: call of a property that is not a function\<close>
  | CannotConvert        \<comment> \<open>TypeError: an object that cannot be converted to a string\<close>
  | Failure jsstring     \<comment> \<open>an Error thrown by a collaborator, with its \<^verbatim>\<open>message\<close>\<close>

text \<open>
  What the program takes from its platform: the URL parser (\<^verbatim>\<open>new URL(x).hostname\<close>,
  \<open>None\<close> when the constructor throws; the constructor converts its argument to a string
  itself), \<^verbatim>\<open>String.prototype.toLowerCase\<close>, truthiness and text of a number,
  \<^verbatim>\<open>JSON.parse\<close>, and the chat completion endpoint of the generation backend
  (\<^verbatim>\<open>openai.chat.completions.create\<close>), which sees the requests made before and the
  request made now, and returns a response or throws.
\<close>

record platform =
  URL_hostname :: "json \<Rightarrow> jsstring option"
  toLowerCase :: "jsstring \<Rightarrow> jsstring"
  Number_truthy :: "double \<Rightarrow> bool"
  Number_toString :: "double \<Rightarrow> jsstring"
  JSON_parse :: "jsstring \<Rightarrow> exn + json"
  completions_create :: "json list \<Rightarrow> json \<Rightarrow> exn + json"

fun truthy :: "platform \<Rightarrow> json option \<Rightarrow> bool" where
  "truthy P None = False"
| "truthy P (Some JNull) = False"
| "truthy P (Some (JBool b)) = b"
| "truthy P (Some (JNum n)) = Number_truthy P n"
| "truthy P (Some (JStr s)) = (s \<noteq> [])"
| "truthy P (Some (JArr xs)) = True"
| "truthy P (Some (JObj kv)) = True"

text \<open>
  Reading a property of a value that is neither \<^verbatim>\<open>undefined\<close> nor \<^verbatim>\<open>null\<close>. It is used
  for the field names of the request, the generated result and the backend's response
  only; none of them is a property of a string, a number, a boolean, an array or of
  \<^verbatim>\<open>Object.prototype\<close>, so only an object that has the key answers.
\<close>

fun get :: "json \<Rightarrow> string \<Rightarrow> json option" where
  "get (JObj kv) k = map_of kv (asc k)"
| "get v k = None"

definition member :: "json option \<Rightarrow> string \<Rightarrow> exn + json option" where
  \<comment> \<open>\<^verbatim>\<open>b.k\<close>: a TypeError when \<open>b\<close> is \<^verbatim>\<open>undefined\<close> or \<^verbatim>\<open>null\<close>\<close>
  "member b k = (case b of None \<Rightarrow> Inl (CannotRead k)
                 | Some v \<Rightarrow> if v = JNull then Inl (CannotRead k) else Inr (get v k))"

definition opt_member :: "json option \<Rightarrow> string \<Rightarrow> json option" where
  \<comment> \<open>\<^verbatim>\<open>b?.k\<close>\<close>
  "opt_member b k = (case b of None \<Rightarrow> None
                     | Some v \<Rightarrow> if v = JNull then None else get v k)"

definition is_array :: "json option \<Rightarrow> bool" where
  \<comment> \<open>\<^verbatim>\<open>Array.isArray\<close>\<close>
  "is_array v = (case v of Some (JArr xs) \<Rightarrow> True | _ \<Rightarrow> False)"

definition elements :: "json option \<Rightarrow> json list" where
  \<comment> \<open>the elements of an array (read only where \<open>is_array\<close> holds)\<close>
  "elements v = (case v of Some (JArr xs) \<Rightarrow> xs | _ \<Rightarrow> [])"

definition then_do :: "exn + 'a \<Rightarrow> ('a \<Rightarrow> exn + 'b) \<Rightarrow> exn + 'b" where
  \<comment> \<open>sequencing: an exception skips the rest\<close>
  "then_do m f = (case m of Inl e \<Rightarrow> Inl e | Inr x \<Rightarrow> f x)"

subsection \<open>Conversion to text\<close>

definition join :: "jsstring \<Rightarrow> jsstring list \<Rightarrow> jsstring" where
  "join sep xs = (case xs of [] \<Rightarrow> [] | y # ys \<Rightarrow> y @ concat (map (\<lambda>z. sep @ z) ys))"

fun collect :: "(exn + 'a) list \<Rightarrow> exn + 'a list" where
  \<comment> \<open>the results from left to right, or the first exception\<close>
  "collect [] = Inr []"
| "collect (m # ms) =
     (case m of
        Inl e \<Rightarrow> Inl e
      | Inr x \<Rightarrow> (case collect ms of Inl e \<Rightarrow> Inl e | Inr xs \<Rightarrow> Inr (x # xs)))"

text \<open>
  \<^verbatim>\<open>ToString\<close> on a JSON value. An array is its elements joined by a comma, converted
  from left to right, where \<^verbatim>\<open>null\<close> gives the empty string
  (\<^verbatim>\<open>Array.prototype.join\<close>). A plain object is \<^verbatim>\<open>[object Object]\<close>, unless it has a
  key \<^verbatim>\<open>toString\<close> of its own: the value of that key is no function, the inherited
  \<^verbatim>\<open>valueOf\<close> (or an own one that is no function) gives no primitive value, and the
  conversion throws a TypeError. The limits of the engine (memory, the depth of the call
  stack) are outside the model.
\<close>

fun ToString :: "platform \<Rightarrow> json \<Rightarrow> exn + jsstring" where
  "ToString P JNull = Inr (asc ''null'')"
| "ToString P (JBool b) = Inr (if b then asc ''true'' else asc ''false'')"
| "ToString P (JNum n) = Inr (Number_toString P n)"
| "ToString P (JStr s) = Inr s"
| "ToString P (JArr xs) =
     (case collect (map (\<lambda>x. if x = JNull then Inr [] else ToString P x) xs) of
        Inl e \<Rightarrow> Inl e
      | Inr ss \<Rightarrow> Inr (join (asc '','') ss))"
| "ToString P (JObj kv) =
     (if map_of kv (asc ''toString'') \<noteq> None then Inl CannotConvert
      else Inr (asc ''[object Object]''))"

definition array_join :: "platform \<Rightarrow> json list \<Rightarrow> jsstring \<Rightarrow> exn + jsstring" where
  \<comment> \<open>\<^verbatim>\<open>xs.join(sep)\<close>\<close>
  "array_join P xs sep =
     (case collect (map (\<lambda>x. if x = JNull then Inr [] else ToString P x) xs) of
        Inl e \<Rightarrow> Inl e
      | Inr ss \<Rightarrow> Inr (join sep ss))"

definition template :: "platform \<Rightarrow> json option \<Rightarrow> exn + jsstring" where
  \<comment> \<open>a value inside a template literal\<close>
  "template P v = (case v of None \<Rightarrow> Inr (asc ''undefined'') | Some x \<Rightarrow> ToString P x)"


fun decimal :: "nat \<Rightarrow> jsstring" where
  "decimal n = (if n < 10 then [of_nat (48 + n)]
                else decimal (n div 10) @ [of_nat (48 + n mod 10)])"

section \<open>SourceValidator\<close>

definition SAFE_DOMAINS :: "jsstring list" where
  "SAFE_DOMAINS =
     [asc ''who.int'', asc ''cdc.gov'', asc ''nhs.uk'', asc ''pubmed.ncbi.nlm.nih.gov'',
      asc ''ncbi.nlm.nih.gov'', asc ''mayoclinic.org'', asc ''nih.gov'']"

definition endsWith :: "jsstring \<Rightarrow> jsstring \<Rightarrow> bool" where
  \<comment> \<open>\<^verbatim>\<open>d.endsWith(s)\<close>: the last \<open>length s\<close> code units of \<open>d\<close> are \<open>s\<close>\<close>
  "endsWith d s = (length s \<le> length d \<and> drop (length d - length s) d = s)"

definition isAllowedSource :: "platform \<Rightarrow> json \<Rightarrow> bool" where
  "isAllowedSource P url =
     (case URL_hostname P url of
        None \<Rightarrow> False
      | Some h \<Rightarrow>
          (let d = toLowerCase P h in
           if list_ex (\<lambda>sd. d = sd \<or> endsWith d (asc ''.'' @ sd)) SAFE_DOMAINS then True
           else endsWith d (asc ''.gov'') \<or> endsWith d (asc ''.edu'')))"

section \<open>Lexical checks on the article text\<close>

definition is_space :: "cu \<Rightarrow> bool" where
  \<comment> \<open>the class \<^verbatim>\<open>\s\<close>: white space and line terminators\<close>
  "is_space c =
     (c \<in> set [0x9, 0xA, 0xB, 0xC, 0xD, 0x20, 0xA0, 0x1680, 0x2028, 0x2029, 0x202F,
                0x205F, 0x3000, 0xFEFF]
      \<or> (0x2000 \<le> c \<and> c \<le> 0x200A))"

definition is_digit :: "cu \<Rightarrow> bool" where
  \<comment> \<open>the class \<^verbatim>\<open>\d\<close>: 0 to 9\<close>
  "is_digit c = (0x30 \<le> c \<and> c \<le> 0x39)"

definition is_word :: "cu \<Rightarrow> bool" where
  \<comment> \<open>the class \<^verbatim>\<open>\w\<close>, which decides \<^verbatim>\<open>\b\<close>: ASCII letters, digits and underscore\<close>
  "is_word c =
     ((0x41 \<le> c \<and> c \<le> 0x5A) \<or> (0x61 \<le> c \<and> c \<le> 0x7A) \<or> is_digit c \<or> c = 0x5F)"

definition match_literal :: "jsstring \<Rightarrow> jsstring \<Rightarrow> jsstring option" where
  \<comment> \<open>a literal at the head of the input: what follows the match\<close>
  "match_literal lit s =
     (if take (length lit) s = lit then Some (drop (length lit) s) else None)"

fun search :: "(jsstring \<Rightarrow> bool) \<Rightarrow> jsstring \<Rightarrow> bool" where
  \<comment> \<open>\<^verbatim>\<open>test\<close> without anchors: a match starting at some position, the end included\<close>
  "search m [] = m []"
| "search m (c # r) = (m (c # r) \<or> search m r)"

subsection \<open>Removing tags and counting words\<close>

text \<open>
  \<^verbatim>\<open>/<[^>]+>/\<close> at the head of the input: a \<^verbatim>\<open><\<close>, then one or more code units other than
  \<^verbatim>\<open>>\<close> (line breaks and further \<^verbatim>\<open><\<close> included), then \<^verbatim>\<open>>\<close>. The greedy run stops
  before the first \<^verbatim>\<open>>\<close>, and no shorter run is followed by one, so the match is
  unique; the result is what follows it.
\<close>

definition tag_at :: "jsstring \<Rightarrow> jsstring option" where
  "tag_at s =
     (case s of
        [] \<Rightarrow> None
      | c # r \<Rightarrow>
          if c = 0x3C then
            (let body = takeWhile (\<lambda>x. x \<noteq> 0x3E) r;
                 rest = dropWhile (\<lambda>x. x \<noteq> 0x3E) r
             in if body \<noteq> [] \<and> rest \<noteq> [] then Some (tl rest) else None)
          else None)"

lemma tag_at_shorter: "tag_at s = Some rest \<Longrightarrow> length rest < length s"
proof -
  assume a: "tag_at s = Some rest"
  then obtain c r where s: "s = c # r"
    by (cases s) (simp_all add: tag_at_def)
  from a s have "rest = tl (dropWhile (\<lambda>x. x \<noteq> 0x3E) r)"
    by (simp add: tag_at_def Let_def split: if_splits)
  moreover have "length (dropWhile (\<lambda>x. x \<noteq> 0x3E) r) \<le> length r"
    by (rule length_dropWhile_le)
  ultimately show ?thesis using s by simp
qed

text \<open>
  \<^verbatim>\<open>.replace(/<[^>]+>/g, ' ')\<close>: from left to right, each match becomes one space and
  the scan goes on after it; a code unit where no match starts is kept.
\<close>

function replace_tags :: "jsstring \<Rightarrow> jsstring" where
  "replace_tags [] = []"
| "replace_tags (c # r) =
     (case tag_at (c # r) of
        Some rest \<Rightarrow> 0x20 # replace_tags rest
      | None \<Rightarrow> c # replace_tags r)"
  by pat_completeness auto
termination
  by (relation "measure length") (auto dest: tag_at_shorter)

text \<open>
  \<^verbatim>\<open>(textOnly.match(/\S+/g) || []).length\<close>: the number of matches of \<^verbatim>\<open>\S+\<close>, each a
  greedy run of code units that are not white space.
\<close>

function count_matches :: "jsstring \<Rightarrow> nat" where
  "count_matches [] = 0"
| "count_matches (c # r) =
     (if is_space c then count_matches r
      else Suc (count_matches (dropWhile (\<lambda>x. \<not> is_space x) r)))"
  by pat_completeness auto
termination
  by (relation "measure length") (auto simp: length_dropWhile_le less_Suc_eq_le)

subsection \<open>The disclaimer pattern\<close>

text \<open>
  \<^verbatim>\<open>/D1\s*D2|D3\s*D4|Disclaimer/i\<close>, where D1 to D4 are the Arabic words below
  ("ikhla'", "al-mas'uliyya": disclaimer of liability; "tanbih", "tibbi": medical
  warning). Arabic letters have no case, and the flag \<^verbatim>\<open>i\<close> without \<^verbatim>\<open>u\<close> maps no
  code unit from 128 on to an ASCII letter, so only the ASCII letters of
  \<^verbatim>\<open>Disclaimer\<close> match in either case.
\<close>

definition DISCLAIMER_1a :: jsstring where
  "DISCLAIMER_1a = [0x625, 0x62E, 0x644, 0x627, 0x621]"

definition DISCLAIMER_1b :: jsstring where
  "DISCLAIMER_1b = [0x627, 0x644, 0x645, 0x633, 0x624, 0x648, 0x644, 0x64A, 0x629]"

definition DISCLAIMER_2a :: jsstring where
  "DISCLAIMER_2a = [0x62A, 0x646, 0x628, 0x64A, 0x647]"

definition DISCLAIMER_2b :: jsstring where
  "DISCLAIMER_2b = [0x637, 0x628, 0x64A]"

definition upper_ascii :: "cu \<Rightarrow> cu" where
  "upper_ascii c = (if 0x61 \<le> c \<and> c \<le> 0x7A then c - 0x20 else c)"

definition match_literal_i :: "jsstring \<Rightarrow> jsstring \<Rightarrow> jsstring option" where
  \<comment> \<open>a literal at the head of the input, ASCII letters in either case\<close>
  "match_literal_i lit s =
     (if map upper_ascii (take (length lit) s) = map upper_ascii lit
      then Some (drop (length lit) s) else None)"

definition two_words_at :: "jsstring \<Rightarrow> jsstring \<Rightarrow> jsstring \<Rightarrow> bool" where
  \<comment> \<open>\<^verbatim>\<open>A\s*B\<close> at the head of the input; \<open>B\<close> starts with a letter, so only the
      longest run of white space can be followed by it\<close>
  "two_words_at a b s =
     (case match_literal_i a s of
        None \<Rightarrow> False
      | Some r \<Rightarrow> match_literal_i b (dropWhile is_space r) \<noteq> None)"

definition disclaimer_at :: "jsstring \<Rightarrow> bool" where
  "disclaimer_at s =
     (two_words_at DISCLAIMER_1a DISCLAIMER_1b s
      \<or> two_words_at DISCLAIMER_2a DISCLAIMER_2b s
      \<or> match_literal_i (asc ''Disclaimer'') s \<noteq> None)"

definition has_disclaimer :: "jsstring \<Rightarrow> bool" where
  "has_disclaimer s = search disclaimer_at s"

subsection \<open>ClaimScanner\<close>

text \<open>
  \<^verbatim>\<open>/\b(V1|V2|V3|V4|V5|V6)\b/\<close> with the six Arabic verbs of the source ("yuqallil"
  reduces, "yazid" increases, "yamna'" prevents, "yu'alij" treats, "yuhassin" improves,
  "yu'addi ila" leads to). \<^verbatim>\<open>\b\<close> holds where exactly one of the code units before and
  after the position is in \<^verbatim>\<open>\w\<close>; the start and the end of the input count as not in it.
\<close>

definition CLAIM_VERBS :: "jsstring list" where
  "CLAIM_VERBS =
     [[0x64A, 0x642, 0x644, 0x644],
      [0x64A, 0x632, 0x64A, 0x62F],
      [0x64A, 0x645, 0x646, 0x639],
      [0x64A, 0x639, 0x627, 0x644, 0x62C],
      [0x64A, 0x62D, 0x633, 0x646],
      [0x64A, 0x624, 0x62F, 0x64A, 0x20, 0x625, 0x644, 0x649]]"

definition word_char :: "cu option \<Rightarrow> bool" where
  "word_char c = (case c of None \<Rightarrow> False | Some x \<Rightarrow> is_word x)"

definition boundary :: "cu option \<Rightarrow> cu option \<Rightarrow> bool" where
  \<comment> \<open>\<^verbatim>\<open>\b\<close> between the code unit before and the code unit after\<close>
  "boundary before after = (word_char before \<noteq> word_char after)"

definition first_cu :: "jsstring \<Rightarrow> cu option" where
  "first_cu s = (case s of [] \<Rightarrow> None | c # r \<Rightarrow> Some c)"

definition last_cu :: "jsstring \<Rightarrow> cu option" where
  "last_cu s = (if s = [] then None else Some (last s))"

definition claim_at :: "cu option \<Rightarrow> jsstring \<Rightarrow> bool" where
  \<comment> \<open>a match of the whole pattern at this position, \<open>before\<close> the code unit before it\<close>
  "claim_at before s =
     (boundary before (first_cu s)
      \<and> list_ex (\<lambda>v. case match_literal v s of
                        None \<Rightarrow> False
                      | Some r \<Rightarrow> boundary (last_cu v) (first_cu r)) CLAIM_VERBS)"

fun scan_claims :: "cu option \<Rightarrow> jsstring \<Rightarrow> bool" where
  "scan_claims before [] = claim_at before []"
| "scan_claims before (c # r) = (claim_at before (c # r) \<or> scan_claims (Some c) r)"

definition has_claims :: "jsstring \<Rightarrow> bool" where
  "has_claims s = scan_claims None s"

text \<open>\<^verbatim>\<open>/\[\d+\]/\<close>: an opening bracket, one or more digits, a closing bracket.\<close>

definition cite_at :: "jsstring \<Rightarrow> bool" where
  "cite_at s =
     (case s of
        [] \<Rightarrow> False
      | c # r \<Rightarrow>
          c = 0x5B \<and> takeWhile is_digit r \<noteq> []
          \<and> first_cu (dropWhile is_digit r) = Some 0x5D)"

definition has_cites :: "jsstring \<Rightarrow> bool" where
  "has_cites s = search cite_at s"

section \<open>ArticleGate\<close>

subsection \<open>Messages and prompts of the source\<close>

text \<open>
  The reasons the gate reports, in the source's Arabic: required fields missing
  (\<open>MSG_required\<close>), the number of sources must lie between 3 and 6
  (\<open>MSG_source_count\<close>), untrusted sources followed by their list (\<open>MSG_untrusted\<close>),
  fewer than 1200 words (\<open>MSG_too_short\<close>), no medical disclaimer
  (\<open>MSG_no_disclaimer\<close>), too few secondary keywords (\<open>MSG_keywords\<close>), and claims
  without numbered citations (\<open>MSG_claims\<close>).
\<close>

definition MSG_required :: jsstring where
  "MSG_required =
     asc ''topic/primaryKeyword/outline '' @ [0x645, 0x637, 0x644, 0x648,
      0x628, 0x629]"

definition MSG_source_count :: jsstring where
  "MSG_source_count =
     [0x639, 0x62F, 0x62F, 0x20, 0x627, 0x644, 0x645, 0x635, 0x627, 0x62F,
      0x631, 0x20, 0x64A, 0x62C, 0x628, 0x20, 0x623, 0x646, 0x20, 0x64A,
      0x643, 0x648, 0x646, 0x20, 0x628, 0x64A, 0x646] @ asc '' 3 '' @
      [0x648, 0x36]"

definition MSG_untrusted :: jsstring where
  "MSG_untrusted =
     [0x645, 0x635, 0x627, 0x62F, 0x631, 0x20, 0x63A, 0x64A, 0x631, 0x20,
      0x645, 0x648, 0x62B, 0x648, 0x642, 0x629, 0x3A, 0x20]"

definition MSG_too_short :: jsstring where
  "MSG_too_short =
     [0x639, 0x62F, 0x62F, 0x20, 0x627, 0x644, 0x643, 0x644, 0x645, 0x627,
      0x62A, 0x20, 0x623, 0x642, 0x644, 0x20, 0x645, 0x646] @
      asc '' 1200.''"

definition MSG_no_disclaimer :: jsstring where
  "MSG_no_disclaimer =
     [0x644, 0x627, 0x20, 0x64A, 0x648, 0x62C, 0x62F, 0x20, 0x625, 0x62E,
      0x644, 0x627, 0x621, 0x20, 0x645, 0x633, 0x624, 0x648, 0x644, 0x64A,
      0x629, 0x20, 0x637, 0x628, 0x64A, 0x2E]"

definition MSG_keywords :: jsstring where
  "MSG_keywords =
     [0x643, 0x644, 0x645, 0x627, 0x62A, 0x20, 0x62B, 0x627, 0x646, 0x648,
      0x64A, 0x629, 0x20, 0x63A, 0x64A, 0x631, 0x20, 0x643, 0x627, 0x641,
      0x64A, 0x629, 0x2E]"

definition MSG_claims :: jsstring where
  "MSG_claims =
     [0x627, 0x62F, 0x639, 0x627, 0x621, 0x627, 0x62A, 0x20, 0x628, 0x62F,
      0x648, 0x646, 0x20, 0x625, 0x62D, 0x627, 0x644, 0x627, 0x62A, 0x20,
      0x645, 0x631, 0x642, 0x645, 0x629, 0x2E]"

text \<open>
  The system instruction \<open>SYS_COMMON\<close> and the literal parts of the template
  \<^verbatim>\<open>ARTICLE_USER\<close>, in the order in which the template joins them with the fields of the
  request; \<open>INTRO_DEFAULT\<close> and \<open>CONCLUSION_DEFAULT\<close> stand in for a missing style.
\<close>

definition SYS_COMMON :: jsstring where
  "SYS_COMMON =
     [0x623, 0x646, 0x62A, 0x20, 0x645, 0x633, 0x627, 0x639, 0x62F, 0x20,
      0x62A, 0x62D, 0x631, 0x64A, 0x631, 0x20, 0x644, 0x645, 0x62D, 0x62A,
      0x648, 0x649, 0x20, 0x635, 0x62D, 0x64A] @ asc '' YMYL. '' @ [0x627,
      0x644, 0x62A, 0x632, 0x645, 0x20, 0x628, 0x62F, 0x642, 0x629, 0x20,
      0x627, 0x644, 0x62D, 0x642, 0x627, 0x626, 0x642, 0x60C, 0x20, 0x627,
      0x644, 0x623, 0x633, 0x644, 0x648, 0x628, 0x20, 0x627, 0x644, 0x648,
      0x627, 0x636, 0x62D, 0x60C, 0x20, 0x648, 0x627, 0x644, 0x62D, 0x64A,
      0x627, 0x62F, 0x2E, 0x20, 0x623, 0x62E, 0x631, 0x62C, 0x20, 0x62F,
      0x627, 0x626, 0x645, 0x64B, 0x627] @ asc '' JSON '' @ [0x635, 0x627,
      0x644, 0x62D, 0x64B, 0x627, 0x20, 0x641, 0x642, 0x637, 0x2E]"

definition TPL_language :: jsstring where
  "TPL_language =
     [0x627, 0x643, 0x62A, 0x628, 0x20, 0x645, 0x642, 0x627, 0x644, 0x627,
      0x64B] @ asc '' (~1500 '' @ [0x643, 0x644, 0x645, 0x629, 0x29, 0x20,
      0x628, 0x627, 0x644, 0x644, 0x63A, 0x629, 0x20]"

definition TPL_outline_start :: jsstring where
  "TPL_outline_start =
     [0x20, 0x648, 0x641, 0x642, 0x20, 0x627, 0x644, 0x647, 0x64A, 0x643,
      0x644, 0x20, 0x627, 0x644, 0x62A, 0x627, 0x644, 0x64A, 0x3A, 0xA] @
      asc ''--- OUTLINE START ---'' @ [0xA]"

definition TPL_outline_end :: jsstring where
  "TPL_outline_end =
     [0xA] @ asc ''--- OUTLINE END ---'' @ [0xA, 0xA, 0x627, 0x644, 0x634,
      0x631, 0x648, 0x637, 0x3A, 0xA, 0x2D, 0x20, 0x627, 0x62A, 0x628,
      0x639, 0x20, 0x623, 0x633, 0x644, 0x648, 0x628, 0x20, 0x645, 0x642,
      0x62F, 0x645, 0x629, 0x3A, 0x20]"

definition INTRO_DEFAULT :: jsstring where
  "INTRO_DEFAULT =
     [0x645, 0x628, 0x627, 0x634, 0x631, 0x629]"

definition TPL_conclusion :: jsstring where
  "TPL_conclusion =
     [0x60C, 0x20, 0x648, 0x62E, 0x627, 0x62A, 0x645, 0x629, 0x3A, 0x20]"

definition CONCLUSION_DEFAULT :: jsstring where
  "CONCLUSION_DEFAULT =
     [0x62A, 0x644, 0x62E, 0x64A, 0x635, 0x64A, 0x629]"

definition TPL_conditions :: jsstring where
  "TPL_conditions =
     [0x2E, 0xA, 0x2D, 0x20, 0x623, 0x62F, 0x631, 0x62C, 0x20, 0x625,
      0x62D, 0x627, 0x644, 0x627, 0x62A, 0x20, 0x645, 0x631, 0x642, 0x651,
      0x645, 0x629, 0x20, 0x62F, 0x627, 0x62E, 0x644, 0x20, 0x627, 0x644,
      0x646, 0x635, 0x20, 0x645, 0x62B, 0x644] @ asc '' [1], [2] '' @
      [0x62A, 0x634, 0x64A, 0x631, 0x20, 0x625, 0x644, 0x649, 0x20, 0x627,
      0x644, 0x645, 0x635, 0x627, 0x62F, 0x631, 0x20, 0x627, 0x644, 0x645,
      0x639, 0x637, 0x627, 0x629, 0x20, 0x28, 0x644, 0x627, 0x20, 0x62A,
      0x62E, 0x62A, 0x631, 0x639, 0x20, 0x645, 0x635, 0x627, 0x62F, 0x631,
      0x29, 0x2E, 0xA, 0x2D, 0x20, 0x623, 0x636, 0x641, 0x20, 0x641, 0x642,
      0x631, 0x629, 0x20, 0x22, 0x625, 0x62E, 0x644, 0x627, 0x621, 0x20,
      0x627, 0x644, 0x645, 0x633, 0x624, 0x648, 0x644, 0x64A, 0x629, 0x20,
      0x627, 0x644, 0x637, 0x628, 0x64A, 0x629, 0x22, 0x20, 0x641, 0x64A,
      0x20, 0x627, 0x644, 0x646, 0x647, 0x627, 0x64A, 0x629, 0x2E, 0xA,
      0x2D, 0x20, 0x625, 0x646, 0x20, 0x641, 0x64F, 0x639, 0x651, 0x644] @
      asc '' FAQ '' @ [0x627, 0x62C, 0x639, 0x644, 0x20, 0x642, 0x633,
      0x645, 0x20, 0x22, 0x623, 0x633, 0x626, 0x644, 0x629, 0x20, 0x634,
      0x627, 0x626, 0x639, 0x629, 0x22, 0x20, 0x622, 0x62E, 0x631, 0x20,
      0x639, 0x646, 0x635, 0x631, 0x2E, 0xA, 0x2D, 0x20, 0x648, 0x644,
      0x651, 0x62F] @ asc '' secondaryKeywords '' @ [0x630, 0x627, 0x62A,
      0x20, 0x635, 0x644, 0x629, 0x20, 0x28, 0x2265] @ asc ''3).'' @ [0xA,
      0xA, 0x628, 0x64A, 0x627, 0x646, 0x627, 0x62A, 0x20, 0x645, 0x633,
      0x627, 0x639, 0x62F, 0x629, 0x3A, 0xA, 0x2D, 0x20, 0x627, 0x644,
      0x643, 0x644, 0x645, 0x629, 0x20, 0x627, 0x644, 0x623, 0x633, 0x627,
      0x633, 0x64A, 0x629, 0x3A, 0x20]"

definition TPL_sources :: jsstring where
  "TPL_sources =
     [0xA, 0x2D, 0x20, 0x645, 0x635, 0x627, 0x62F, 0x631, 0x20, 0x645,
      0x648, 0x62B, 0x648, 0x642, 0x629, 0x3A, 0xA]"

definition TPL_links :: jsstring where
  "TPL_links =
     [0xA, 0x2D, 0x20, 0x631, 0x648, 0x627, 0x628, 0x637, 0x20, 0x62F,
      0x627, 0x62E, 0x644, 0x64A, 0x629, 0x20, 0x28, 0x627, 0x62E, 0x62A,
      0x64A, 0x627, 0x631, 0x64A, 0x29, 0x3A, 0xA]"

definition TPL_keys :: jsstring where
  "TPL_keys =
     [0xA, 0xA, 0x623, 0x639, 0x62F] @ asc '' JSON '' @ [0x628, 0x627,
      0x644, 0x645, 0x641, 0x627, 0x62A, 0x64A, 0x62D] @
      asc '': article{articleTitle, articleHtmlContent, secondaryKey'' @
      asc ''words[]}, metadata{metaTitle, metaDescription, socialTit'' @
      asc ''le, socialDescription}, gate{blocked, reasons[], claimsN'' @
      asc ''eedingCitations[]}. '' @ [0x644, 0x627, 0x20, 0x62A, 0x639,
      0x64F, 0x62F, 0x20, 0x623, 0x64A, 0x20, 0x62D, 0x642, 0x648, 0x644,
      0x20, 0x623, 0x62E, 0x631, 0x649, 0x2E]"

subsection \<open>Values, methods and property updates\<close>

definition str :: "string \<Rightarrow> json" where
  "str s = JStr (asc s)"

definition or_default :: "platform \<Rightarrow> json option \<Rightarrow> json \<Rightarrow> json" where
  \<comment> \<open>\<^verbatim>\<open>v || d\<close>\<close>
  "or_default P v d = (case v of None \<Rightarrow> d | Some x \<Rightarrow> if truthy P v then x else d)"

text \<open>
  Calling an array method (\<^verbatim>\<open>filter\<close>, \<^verbatim>\<open>map\<close>, \<^verbatim>\<open>push\<close>) or a string method
  (\<^verbatim>\<open>replace\<close>) on a JSON value: the receiver's elements or code units when it has the
  method, a TypeError otherwise. An object parsed from JSON holds no function.
\<close>

definition array_method :: "json option \<Rightarrow> string \<Rightarrow> exn + json list" where
  "array_method v m =
     (case v of
        None \<Rightarrow> Inl (CannotRead m)
      | Some JNull \<Rightarrow> Inl (CannotRead m)
      | Some (JArr xs) \<Rightarrow> Inr xs
      | Some _ \<Rightarrow> Inl (NotAFunction m))"

definition string_method :: "json option \<Rightarrow> string \<Rightarrow> exn + jsstring" where
  "string_method v m =
     (case v of
        None \<Rightarrow> Inl (CannotRead m)
      | Some JNull \<Rightarrow> Inl (CannotRead m)
      | Some (JStr s) \<Rightarrow> Inr s
      | Some _ \<Rightarrow> Inl (NotAFunction m))"

definition length_truthy :: "platform \<Rightarrow> json option \<Rightarrow> exn + bool" where
  \<comment> \<open>\<^verbatim>\<open>v.length\<close> as a condition\<close>
  "length_truthy P v =
     (case v of
        None \<Rightarrow> Inl (CannotRead ''length'')
      | Some JNull \<Rightarrow> Inl (CannotRead ''length'')
      | Some (JArr xs) \<Rightarrow> Inr (xs \<noteq> [])
      | Some (JStr s) \<Rightarrow> Inr (s \<noteq> [])
      | Some (JObj kv) \<Rightarrow> Inr (truthy P (map_of kv (asc ''length'')))
      | Some _ \<Rightarrow> Inr False)"

definition index0 :: "json option \<Rightarrow> json option" where
  \<comment> \<open>\<^verbatim>\<open>v?.[0]\<close>\<close>
  "index0 v =
     (case v of
        Some (JArr xs) \<Rightarrow> (case xs of [] \<Rightarrow> None | x # r \<Rightarrow> Some x)
      | Some (JStr s) \<Rightarrow> (case s of [] \<Rightarrow> None | c # r \<Rightarrow> Some (JStr [c]))
      | Some (JObj kv) \<Rightarrow> map_of kv (asc ''0'')
      | _ \<Rightarrow> None)"

definition set_gate_field :: "json \<Rightarrow> string \<Rightarrow> json \<Rightarrow> json" where
  \<comment> \<open>the result after \<^verbatim>\<open>out.gate.field\<close> has received a new value. The program
      writes there only after it has read a property of \<^verbatim>\<open>out.gate\<close> that is neither
      \<^verbatim>\<open>undefined\<close> nor \<^verbatim>\<open>null\<close>, that is when \<^verbatim>\<open>out\<close> and \<^verbatim>\<open>out.gate\<close> are objects.\<close>
  "set_gate_field out field v =
     (case out of
        JObj okv \<Rightarrow>
          (case map_of okv (asc ''gate'') of
             Some (JObj gkv) \<Rightarrow>
               JObj (AList.update (asc ''gate'') (JObj (AList.update (asc field) v gkv)) okv)
           | _ \<Rightarrow> out)
      | _ \<Rightarrow> out)"

definition push :: "json \<Rightarrow> string \<Rightarrow> jsstring \<Rightarrow> exn + json" where
  \<comment> \<open>\<^verbatim>\<open>out.gate.field.push(msg)\<close>\<close>
  "push out field msg =
     then_do (member (Some out) ''gate'') (\<lambda>g.
     then_do (member g field) (\<lambda>a.
     then_do (array_method a ''push'') (\<lambda>xs.
       Inr (set_gate_field out field (JArr (xs @ [JStr msg]))))))"

subsection \<open>GenerationClient\<close>

definition string_type :: json where
  "string_type = JObj [(asc ''type'', str ''string'')]"

definition string_array_type :: json where
  "string_array_type = JObj [(asc ''type'', str ''array''), (asc ''items'', string_type)]"

definition object_type :: "(string \<times> json) list \<Rightarrow> json" where
  \<comment> \<open>an object schema whose properties are all required, with no others allowed\<close>
  "object_type props =
     JObj [(asc ''type'', str ''object''),
           (asc ''properties'', JObj (map (\<lambda>(k, t). (asc k, t)) props)),
           (asc ''required'', JArr (map (\<lambda>(k, t). str k) props)),
           (asc ''additionalProperties'', JBool False)]"

definition articleSchema :: json where
  "articleSchema =
     JObj [(asc ''name'', str ''article_schema''),
           (asc ''schema'',
            object_type
              [(''article'',
                object_type [(''articleTitle'', string_type),
                             (''articleHtmlContent'', string_type),
                             (''secondaryKeywords'', string_array_type)]),
               (''metadata'',
                object_type [(''metaTitle'', string_type),
                             (''metaDescription'', string_type),
                             (''socialTitle'', string_type),
                             (''socialDescription'', string_type)]),
               (''gate'',
                object_type [(''blocked'', JObj [(asc ''type'', str ''boolean'')]),
                             (''reasons'', string_array_type),
                             (''claimsNeedingCitations'', string_array_type)])])]"

definition message_content :: "json \<Rightarrow> exn + json option" where
  \<comment> \<open>\<^verbatim>\<open>resp.choices?.[0]?.message?.content\<close>\<close>
  "message_content resp =
     then_do (member (Some resp) ''choices'') (\<lambda>choices.
       Inr (opt_member (opt_member (index0 choices) ''message'') ''content''))"

text \<open>
  \<open>gpt5Structured\<close> sends one request to the backend and parses the content of the
  first choice (\<^verbatim>\<open>{}\<close> when there is none). The list of requests made so far is the
  state it extends; it returns the parsed value or the exception, and never asks twice.
\<close>

definition gpt5Structured ::
  "platform \<Rightarrow> jsstring \<Rightarrow> jsstring \<Rightarrow> json \<Rightarrow> json list \<Rightarrow> (exn + json) \<times> json list" where
  "gpt5Structured P system user schema calls =
     (let request =
            JObj [(asc ''model'', str ''gpt-5''),
                  (asc ''messages'',
                   JArr [JObj [(asc ''role'', str ''system''), (asc ''content'', JStr system)],
                         JObj [(asc ''role'', str ''user''), (asc ''content'', JStr user)]]),
                  (asc ''response_format'',
                   JObj [(asc ''type'', str ''json_schema''), (asc ''json_schema'', schema)])]
      in (then_do (completions_create P calls request) (\<lambda>resp.
          then_do (message_content resp) (\<lambda>content.
          then_do (ToString P (or_default P content (str ''{}''))) (\<lambda>txt.
            JSON_parse P txt))),
          calls @ [request]))"

text \<open>
  The template \<^verbatim>\<open>ARTICLE_USER\<close>: every substitution is evaluated and converted to text in
  turn, from left to right, so the first exception on the way is the one thrown.
\<close>

definition ARTICLE_USER :: "platform \<Rightarrow> json \<Rightarrow> exn + jsstring" where
  "ARTICLE_USER P p =
     then_do (template P (get p ''language'')) (\<lambda>language.
     then_do (template P (get p ''outline'')) (\<lambda>outline.
     then_do (ToString P (or_default P (get p ''introStyle'') (JStr INTRO_DEFAULT))) (\<lambda>intro.
     then_do (ToString P (or_default P (get p ''conclusionStyle'') (JStr CONCLUSION_DEFAULT)))
       (\<lambda>conclusion.
     then_do (template P (get p ''primaryKeyword'')) (\<lambda>keyword.
     then_do (array_method (get p ''sources'') ''map'') (\<lambda>sources.
     then_do (collect (map (\<lambda>(i, s). then_do (ToString P s) (\<lambda>t.
                               Inr (asc ''['' @ decimal (i + 1) @ asc ''] '' @ t)))
                         (enumerate 0 sources))) (\<lambda>source_lines.
     then_do (array_method (Some (or_default P (get p ''internalLinks'') (JArr []))) ''map'')
       (\<lambda>links.
     then_do (collect (map (\<lambda>u. then_do (ToString P u) (\<lambda>t. Inr (asc ''- '' @ t))) links))
       (\<lambda>link_lines.
       Inr (TPL_language @ language
            @ TPL_outline_start @ outline
            @ TPL_outline_end @ intro
            @ TPL_conclusion @ conclusion
            @ TPL_conditions @ keyword
            @ TPL_sources @ join [0xA] source_lines
            @ TPL_links @ join [0xA] link_lines
            @ TPL_keys))))))))))"

subsection \<open>The article operation\<close>

datatype reply =
    Json json              \<comment> \<open>\<^verbatim>\<open>res.json(v)\<close>, status 200\<close>
  | BadRequest jsstring    \<comment> \<open>\<^verbatim>\<open>res.status(400).send(message)\<close>\<close>
  | BadRequestEngine exn   \<comment> \<open>status 400 with the engine's message for this TypeError
                               (its wording is the engine's; it is never empty)\<close>

definition bad_request :: "exn \<Rightarrow> reply" where
  \<comment> \<open>\<^verbatim>\<open>res.status(400).send(e.message || 'Bad Request')\<close>\<close>
  "bad_request e =
     (case e of
        Failure m \<Rightarrow> BadRequest (if m \<noteq> [] then m else asc ''Bad Request'')
      | _ \<Rightarrow> BadRequestEngine e)"

definition pre_validate :: "platform \<Rightarrow> json \<Rightarrow> exn + jsstring list" where
  \<comment> \<open>the reasons collected before generation, or the exception raised on the way\<close>
  "pre_validate P p =
     (let reasons1 =
            (if \<not> truthy P (get p ''topic'') \<or> \<not> truthy P (get p ''primaryKeyword'')
                \<or> \<not> truthy P (get p ''outline'')
             then [MSG_required] else []);
          sources = get p ''sources'';
          reasons2 =
            (if \<not> is_array sources \<or> length (elements sources) < 3
                \<or> length (elements sources) > 6
             then reasons1 @ [MSG_source_count] else reasons1)
      in then_do (array_method (Some (or_default P sources (JArr []))) ''filter'') (\<lambda>xs.
           let bad = filter (\<lambda>s. \<not> isAllowedSource P s) xs
           in if bad \<noteq> []
              then then_do (array_join P bad (asc '', '')) (\<lambda>joined.
                     Inr (reasons2 @ [MSG_untrusted @ joined]))
              else Inr reasons2))"

definition blocked_response :: "platform \<Rightarrow> json \<Rightarrow> jsstring list \<Rightarrow> json" where
  "blocked_response P p reasons =
     JObj [(asc ''article'',
            JObj [(asc ''articleTitle'', or_default P (get p ''topic'') (JStr [])),
                  (asc ''articleHtmlContent'', JStr []),
                  (asc ''secondaryKeywords'', JArr [])]),
           (asc ''metadata'',
            JObj [(asc ''metaTitle'', JStr []),
                  (asc ''metaDescription'', JStr []),
                  (asc ''socialTitle'', JStr []),
                  (asc ''socialDescription'', JStr [])]),
           (asc ''gate'',
            JObj [(asc ''blocked'', JBool True),
                  (asc ''reasons'', JArr (map JStr reasons)),
                  (asc ''claimsNeedingCitations'', JArr [])])]"

definition gate_verdict :: "platform \<Rightarrow> json \<Rightarrow> exn + bool" where
  \<comment> \<open>\<^verbatim>\<open>out.gate.reasons.length || out.gate.blocked || out.gate.claimsNeedingCitations.length\<close>\<close>
  "gate_verdict P out =
     then_do (member (Some out) ''gate'') (\<lambda>g.
     then_do (member g ''reasons'') (\<lambda>r.
     then_do (length_truthy P r) (\<lambda>some_reason.
       if some_reason then Inr True
       else then_do (member g ''blocked'') (\<lambda>b.
              if truthy P b then Inr True
              else then_do (member g ''claimsNeedingCitations'') (\<lambda>c.
                     length_truthy P c)))))"

definition post_validate :: "platform \<Rightarrow> json \<Rightarrow> exn + json" where
  \<comment> \<open>StructuralChecker, ClaimScanner and the aggregation, on the generated result\<close>
  "post_validate P out =
     then_do (string_method
                (Some (or_default P
                         (opt_member (opt_member (Some out) ''article'') ''articleHtmlContent'')
                         (JStr [])))
                ''replace'') (\<lambda>html.
     let textOnly = replace_tags html;
         wc = count_matches textOnly
     in
     then_do (if wc < 1200 then push out ''reasons'' MSG_too_short else Inr out) (\<lambda>out1.
     then_do (if \<not> has_disclaimer textOnly then push out1 ''reasons'' MSG_no_disclaimer
              else Inr out1) (\<lambda>out2.
     then_do (member (Some out2) ''article'') (\<lambda>article.
     then_do (member article ''secondaryKeywords'') (\<lambda>kw.
     then_do (if \<not> is_array kw \<or> length (elements kw) < 3
              then push out2 ''reasons'' MSG_keywords else Inr out2) (\<lambda>out3.
     let hasClaims = has_claims textOnly
     in
     then_do (member (Some out3) ''article'') (\<lambda>article'.
     then_do (member article' ''articleHtmlContent'') (\<lambda>content.
     then_do (ToString P (or_default P content (JStr []))) (\<lambda>tested.
     let hasCites = has_cites tested
     in
     then_do (if hasClaims \<and> \<not> hasCites
              then push out3 ''claimsNeedingCitations'' MSG_claims else Inr out3) (\<lambda>out4.
     then_do (gate_verdict P out4) (\<lambda>blocked.
       Inr (if blocked then set_gate_field out4 ''blocked'' (JBool True) else out4))))))))))))"

text \<open>
  The handler of \<^verbatim>\<open>POST /api/gpt5/article\<close>: the request body (\<open>None\<close> when there is
  none) and the requests made to the backend so far, to the reply and the requests made
  when it ends. Every exception of the body is caught and answered with status 400.
\<close>

definition article_handler :: "platform \<Rightarrow> json option \<Rightarrow> json list \<Rightarrow> reply \<times> json list" where
  "article_handler P body calls =
     (let p = or_default P body (JObj []) in
      case pre_validate P p of
        Inl e \<Rightarrow> (bad_request e, calls)
      | Inr reasons \<Rightarrow>
          if reasons \<noteq> [] then (Json (blocked_response P p reasons), calls)
          else
            (case ARTICLE_USER P p of
               Inl e \<Rightarrow> (bad_request e, calls)
             | Inr user \<Rightarrow>
                 (case gpt5Structured P SYS_COMMON user articleSchema calls of
                    (Inl e, calls') \<Rightarrow> (bad_request e, calls')
                  | (Inr out, calls') \<Rightarrow>
                      (case post_validate P out of
                         Inl e \<Rightarrow> (bad_request e, calls')
                       | Inr out' \<Rightarrow> (Json out', calls')))))"

section \<open>Reading results, and what a conforming result is\<close>

fun path :: "json \<Rightarrow> string list \<Rightarrow> json option" where
  \<comment> \<open>the value at the end of a chain of object fields\<close>
  "path v [] = Some v"
| "path v (k # ks) = (case get v k of None \<Rightarrow> None | Some w \<Rightarrow> path w ks)"

definition gate_reasons :: "json \<Rightarrow> json list" where
  "gate_reasons out = elements (path out [''gate'', ''reasons''])"

definition gate_claims :: "json \<Rightarrow> json list" where
  "gate_claims out = elements (path out [''gate'', ''claimsNeedingCitations''])"

definition gate_object :: "json \<Rightarrow> bool" where
  \<comment> \<open>\<^verbatim>\<open>out\<close> and \<^verbatim>\<open>out.gate\<close> are objects\<close>
  "gate_object out =
     (case out of
        JObj okv \<Rightarrow> (case map_of okv (asc ''gate'') of Some (JObj gkv) \<Rightarrow> True | _ \<Rightarrow> False)
      | _ \<Rightarrow> False)"

definition has_keys :: "(jsstring \<times> json) list \<Rightarrow> string list \<Rightarrow> bool" where
  \<comment> \<open>all of these properties and no other\<close>
  "has_keys kv ks = (distinct (map fst kv) \<and> set (map fst kv) = set (map asc ks))"

definition is_string :: "json option \<Rightarrow> bool" where
  "is_string v = (case v of Some (JStr s) \<Rightarrow> True | _ \<Rightarrow> False)"

definition is_boolean :: "json option \<Rightarrow> bool" where
  "is_boolean v = (case v of Some (JBool b) \<Rightarrow> True | _ \<Rightarrow> False)"

definition is_string_array :: "json option \<Rightarrow> bool" where
  "is_string_array v =
     (case v of Some (JArr xs) \<Rightarrow> list_all (\<lambda>x. is_string (Some x)) xs | _ \<Rightarrow> False)"

text \<open>
  A result conforms when it is an instance of \<open>articleSchema\<close>: the three objects with
  exactly their required fields, each of its declared type.
\<close>

definition conforming :: "json \<Rightarrow> bool" where
  "conforming out =
     (case out of
        JObj okv \<Rightarrow>
          has_keys okv [''article'', ''metadata'', ''gate'']
          \<and> (case map_of okv (asc ''article'') of
                Some (JObj akv) \<Rightarrow>
                  has_keys akv [''articleTitle'', ''articleHtmlContent'', ''secondaryKeywords'']
                  \<and> is_string (map_of akv (asc ''articleTitle''))
                  \<and> is_string (map_of akv (asc ''articleHtmlContent''))
                  \<and> is_string_array (map_of akv (asc ''secondaryKeywords''))
              | _ \<Rightarrow> False)
          \<and> (case map_of okv (asc ''metadata'') of
                Some (JObj mkv) \<Rightarrow>
                  has_keys mkv [''metaTitle'', ''metaDescription'', ''socialTitle'',
                                ''socialDescription'']
                  \<and> is_string (map_of mkv (asc ''metaTitle''))
                  \<and> is_string (map_of mkv (asc ''metaDescription''))
                  \<and> is_string (map_of mkv (asc ''socialTitle''))
                  \<and> is_string (map_of mkv (asc ''socialDescription''))
              | _ \<Rightarrow> False)
          \<and> (case map_of okv (asc ''gate'') of
                Some (JObj gkv) \<Rightarrow>
                  has_keys gkv [''blocked'', ''reasons'', ''claimsNeedingCitations'']
                  \<and> is_boolean (map_of gkv (asc ''blocked''))
                  \<and> is_string_array (map_of gkv (asc ''reasons''))
                  \<and> is_string_array (map_of gkv (asc ''claimsNeedingCitations''))
              | _ \<Rightarrow> False)
      | _ \<Rightarrow> False)"

subsection \<open>The checks as the specification names them\<close>

text \<open>
  The specification splits a text on runs of white space and counts the tokens. \<open>pieces\<close>
  cuts the text at every white space code unit; the tokens are the pieces that are not
  empty.
\<close>

fun pieces :: "jsstring \<Rightarrow> jsstring list" where
  "pieces [] = [[]]"
| "pieces (c # r) =
     (if is_space c then [] # pieces r
      else (case pieces r of [] \<Rightarrow> [[c]] | f # fs \<Rightarrow> (c # f) # fs))"

definition tokens :: "jsstring \<Rightarrow> jsstring list" where
  "tokens s = filter (\<lambda>w. w \<noteq> []) (pieces s)"



text \<open>
  A citation marker, as the specification describes it: an opening bracket, an integer,
  a closing bracket, somewhere in the text.
\<close>

definition bracketed_integer_in :: "jsstring \<Rightarrow> bool" where
  "bracketed_integer_in s =
     (\<exists>pre ds post. s = pre @ [0x5B] @ ds @ [0x5D] @ post \<and> ds \<noteq> [] \<and> list_all is_digit ds)"

text \<open>
  StructuralChecker and ClaimScanner as functions of the article alone: the reasons and
  the claims that post-validation adds for an article with this content and these
  secondary keywords.
\<close>

definition structural_reasons :: "jsstring \<Rightarrow> json option \<Rightarrow> jsstring list" where
  "structural_reasons html kw =
     (if count_matches (replace_tags html) < 1200 then [MSG_too_short] else [])
     @ (if \<not> has_disclaimer (replace_tags html) then [MSG_no_disclaimer] else [])
     @ (if \<not> is_array kw \<or> length (elements kw) < 3 then [MSG_keywords] else [])"

definition uncited_claims :: "jsstring \<Rightarrow> jsstring list" where
  "uncited_claims html =
     (if has_claims (replace_tags html) \<and> \<not> has_cites html then [MSG_claims] else [])"

subsection \<open>A test double for the platform\<close>

text \<open>
  A platform for concrete runs: the host of a URL is what stands between \<^verbatim>\<open>https://\<close>
  and the next slash, lower case is taken on ASCII letters, the backend answers every
  request with \<open>response\<close>, and the parser turns every content into \<open>parsed\<close>.
\<close>

definition stub_hostname :: "json \<Rightarrow> jsstring option" where
  "stub_hostname u =
     (case u of
        JStr s \<Rightarrow>
          (case match_literal (asc ''https://'') s of
             None \<Rightarrow> None
           | Some r \<Rightarrow> Some (takeWhile (\<lambda>c. c \<noteq> 0x2F) r))
      | _ \<Rightarrow> None)"

definition lower_ascii :: "cu \<Rightarrow> cu" where
  "lower_ascii c = (if 0x41 \<le> c \<and> c \<le> 0x5A then c + 0x20 else c)"

definition stub_platform :: "(exn + json) \<Rightarrow> (exn + json) \<Rightarrow> platform" where
  "stub_platform response parsed =
     \<lparr> URL_hostname = stub_hostname,
       toLowerCase = map lower_ascii,
       Number_truthy = (\<lambda>n. True),
       Number_toString = (\<lambda>n. asc ''1''),
       JSON_parse = (\<lambda>s. parsed),
       completions_create = (\<lambda>calls request. response) \<rparr>"

text \<open>
  A request that passes pre-validation on the test double, a backend response with one
  choice, and a conforming result with a given content, three secondary keywords and
  nothing reported by the backend.
\<close>

definition sample_request :: json where
  "sample_request =
     JObj [(asc ''topic'', str ''diabetes''),
           (asc ''primaryKeyword'', str ''diabetes''),
           (asc ''outline'', str ''H2 Overview''),
           (asc ''sources'',
            JArr [str ''https://www.cdc.gov/diabetes'', str ''https://www.who.int/diabetes'',
                  str ''https://medlineplus.gov/diabetes''])]"

definition sample_response :: json where
  "sample_response =
     JObj [(asc ''choices'',
            JArr [JObj [(asc ''message'', JObj [(asc ''content'', str ''{json}'')])]])]"

definition sample_result :: "jsstring \<Rightarrow> json" where
  "sample_result html =
     JObj [(asc ''article'',
            JObj [(asc ''articleTitle'', str ''Diabetes''),
                  (asc ''articleHtmlContent'', JStr html),
                  (asc ''secondaryKeywords'',
                   JArr [str ''insulin'', str ''glucose'', str ''diet''])]),
           (asc ''metadata'',
            JObj [(asc ''metaTitle'', str ''Diabetes''),
                  (asc ''metaDescription'', str ''About diabetes''),
                  (asc ''socialTitle'', str ''Diabetes''),
                  (asc ''socialDescription'', str ''About diabetes'')]),
           (asc ''gate'',
            JObj [(asc ''blocked'', JBool False),
                  (asc ''reasons'', JArr []),
                  (asc ''claimsNeedingCitations'', JArr [])])]"

text \<open>
  A result that does not conform (no metadata, no title, content or keywords, no
  \<^verbatim>\<open>blocked\<close>), and an Arabic sentence, "al-dawa' yuqallil al-khatar" (the medicine
  reduces the risk), whose second word is the first claim verb of the source.
\<close>

definition sample_partial_result :: json where
  "sample_partial_result =
     JObj [(asc ''article'', JObj []),
           (asc ''gate'',
            JObj [(asc ''reasons'', JArr []), (asc ''claimsNeedingCitations'', JArr [])])]"

definition arabic_claim_sentence :: jsstring where
  "arabic_claim_sentence =
     [0x627, 0x644, 0x62F, 0x648, 0x627, 0x621, 0x20, 0x64A, 0x642, 0x644, 0x644, 0x20,
      0x627, 0x644, 0x62E, 0x637, 0x631]"



section \<open>Properties of the checks\<close>

subsection \<open>Suffixes\<close>

lemma endsWith_suffix: "endsWith d s \<longleftrightarrow> suffix s d"
proof
  assume a: "endsWith d s"
  then have "d = take (length d - length s) d @ s"
    by (metis append_take_drop_id endsWith_def)
  then show "suffix s d"
    unfolding suffix_def by blast
next
  assume "suffix s d"
  then obtain zs where "d = zs @ s"
    unfolding suffix_def by blast
  then show "endsWith d s"
    by (simp add: endsWith_def)
qed

subsection \<open>Word count\<close>






subsection \<open>Tags\<close>

lemma replace_tags_plain: "0x3C \<notin> set s \<Longrightarrow> replace_tags s = s"
  by (induction s) (simp_all add: tag_at_def)

lemma tag_at_tag:
  assumes "body \<noteq> []" and "0x3E \<notin> set body"
  shows "tag_at ([0x3C] @ body @ [0x3E] @ post) = Some post"
proof -
  have t: "takeWhile (\<lambda>x. x \<noteq> 0x3E) (body @ 0x3E # post) = body"
  proof -
    have "\<And>x. x \<in> set body \<Longrightarrow> x \<noteq> 0x3E" using assms(2) by auto
    then have "takeWhile (\<lambda>x. x \<noteq> 0x3E) (body @ 0x3E # post)
                 = body @ takeWhile (\<lambda>x. x \<noteq> 0x3E) (0x3E # post)"
      by (rule takeWhile_append2)
    then show ?thesis by simp
  qed
  have d: "dropWhile (\<lambda>x. x \<noteq> 0x3E) (body @ 0x3E # post) = 0x3E # post"
  proof -
    have "\<And>x. x \<in> set body \<Longrightarrow> x \<noteq> 0x3E" using assms(2) by auto
    then have "dropWhile (\<lambda>x. x \<noteq> 0x3E) (body @ 0x3E # post)
                 = dropWhile (\<lambda>x. x \<noteq> 0x3E) (0x3E # post)"
      by (rule dropWhile_append2)
    then show ?thesis by simp
  qed
  show ?thesis
    using assms(1) by (simp add: tag_at_def t d)
qed

lemma replace_tags_tag:
  assumes "0x3C \<notin> set pre" and "body \<noteq> []" and "0x3E \<notin> set body"
  shows "replace_tags (pre @ [0x3C] @ body @ [0x3E] @ post) = pre @ [0x20] @ replace_tags post"
  using assms(1)
proof (induction pre)
  case Nil
  have "replace_tags ([0x3C] @ body @ [0x3E] @ post) = 0x20 # replace_tags post"
    using tag_at_tag [OF assms(2,3), of post] by simp
  then show ?case by simp
next
  case (Cons c pre)
  then have "tag_at (c # pre @ [0x3C] @ body @ [0x3E] @ post) = None"
    by (simp add: tag_at_def)
  with Cons show ?case by simp
qed





subsection \<open>Citation markers and claim verbs\<close>

lemma search_iff: "search m s \<longleftrightarrow> (\<exists>pre post. s = pre @ post \<and> m post)"
proof (induction s)
  case Nil
  show ?case by simp
next
  case (Cons c r)
  show ?case
  proof
    assume "search m (c # r)"
    then consider "m (c # r)" | "search m r" by auto
    then show "\<exists>pre post. c # r = pre @ post \<and> m post"
    proof cases
      case 1
      then have "c # r = [] @ (c # r) \<and> m (c # r)" by simp
      then show ?thesis by blast
    next
      case 2
      with Cons obtain pre post where "r = pre @ post" "m post" by blast
      then have "c # r = (c # pre) @ post \<and> m post" by simp
      then show ?thesis by blast
    qed
  next
    assume "\<exists>pre post. c # r = pre @ post \<and> m post"
    then obtain pre post where p: "c # r = pre @ post" and m: "m post" by blast
    show "search m (c # r)"
    proof (cases pre)
      case Nil
      with p m have "m (c # r)" by simp
      then show ?thesis by simp
    next
      case (Cons a pre')
      with p have "r = pre' @ post" by simp
      with m Cons.IH show ?thesis by auto
    qed
  qed
qed

lemma cite_at_iff:
  "cite_at s \<longleftrightarrow> (\<exists>ds post. s = [0x5B] @ ds @ [0x5D] @ post \<and> ds \<noteq> [] \<and> list_all is_digit ds)"
proof
  assume a: "cite_at s"
  then obtain c r where s: "s = c # r" by (cases s) (simp_all add: cite_at_def)
  define ds where "ds = takeWhile is_digit r"
  from a s have c: "c = 0x5B" and ne: "ds \<noteq> []"
      and f: "first_cu (dropWhile is_digit r) = Some 0x5D"
    by (simp_all add: cite_at_def ds_def)
  from f obtain post where d: "dropWhile is_digit r = 0x5D # post"
    by (cases "dropWhile is_digit r") (simp_all add: first_cu_def)
  have "r = ds @ dropWhile is_digit r"
    by (simp add: ds_def)
  with d s c have "s = [0x5B] @ ds @ [0x5D] @ post" by simp
  moreover have "list_all is_digit ds"
    by (simp add: ds_def list_all_iff) (meson set_takeWhileD)
  ultimately show "\<exists>ds post. s = [0x5B] @ ds @ [0x5D] @ post \<and> ds \<noteq> [] \<and> list_all is_digit ds"
    using ne by blast
next
  assume "\<exists>ds post. s = [0x5B] @ ds @ [0x5D] @ post \<and> ds \<noteq> [] \<and> list_all is_digit ds"
  then obtain ds post where s: "s = [0x5B] @ ds @ [0x5D] @ post" and ne: "ds \<noteq> []"
      and dg: "list_all is_digit ds" by blast
  have nd: "\<not> is_digit 0x5D" by (simp add: is_digit_def)
  from dg have t: "takeWhile is_digit (ds @ 0x5D # post) = ds"
    by (simp add: takeWhile_append2 list_all_iff nd)
  from dg have d: "dropWhile is_digit (ds @ 0x5D # post) = 0x5D # post"
    by (simp add: dropWhile_append2 list_all_iff nd)
  show "cite_at s"
    using ne by (simp add: s cite_at_def t d first_cu_def)
qed

lemma has_cites_iff: "has_cites s \<longleftrightarrow> bracketed_integer_in s"
  unfolding has_cites_def bracketed_integer_in_def search_iff cite_at_iff by auto

lemma scan_claims_needs_word:
  "\<not> word_char before \<Longrightarrow> \<forall>c \<in> set s. \<not> is_word c \<Longrightarrow> \<not> scan_claims before s"
proof (induction s arbitrary: before)
  case Nil
  then show ?case by (simp add: claim_at_def boundary_def first_cu_def word_char_def)
next
  case (Cons c r)
  have "\<not> claim_at before (c # r)"
    using Cons.prems by (simp add: claim_at_def boundary_def first_cu_def word_char_def)
  moreover have "\<not> scan_claims (Some c) r"
    using Cons.prems by (intro Cons.IH) (simp_all add: word_char_def)
  ultimately show ?case by simp
qed

lemma has_claims_needs_word: "\<forall>c \<in> set s. \<not> is_word c \<Longrightarrow> \<not> has_claims s"
  unfolding has_claims_def by (rule scan_claims_needs_word) (simp_all add: word_char_def)

subsection \<open>Updates of the gate\<close>

lemma path_end: "(case x of None \<Rightarrow> None | Some w \<Rightarrow> path w []) = x"
  by (cases x) simp_all

lemma get_Some_obj: "get v k = Some w \<Longrightarrow> \<exists>kv. v = JObj kv \<and> map_of kv (asc k) = Some w"
  by (cases v) simp_all

lemma path_gate_field:
  "path out [''gate'', f] = Some v \<longleftrightarrow>
     (\<exists>okv gkv. out = JObj okv \<and> map_of okv (asc ''gate'') = Some (JObj gkv)
        \<and> map_of gkv (asc f) = Some v)"
proof
  assume a: "path out [''gate'', f] = Some v"
  then obtain g where g: "get out ''gate'' = Some g" and f: "get g f = Some v"
    by (auto split: option.splits)
  from get_Some_obj [OF g] get_Some_obj [OF f] show
    "\<exists>okv gkv. out = JObj okv \<and> map_of okv (asc ''gate'') = Some (JObj gkv)
        \<and> map_of gkv (asc f) = Some v"
    by blast
next
  assume "\<exists>okv gkv. out = JObj okv \<and> map_of okv (asc ''gate'') = Some (JObj gkv)
        \<and> map_of gkv (asc f) = Some v"
  then show "path out [''gate'', f] = Some v" by auto
qed

lemma path_gate_object: "path out [''gate'', f] = Some v \<Longrightarrow> gate_object out"
  by (auto simp: path_gate_field gate_object_def simp del: path.simps)

lemma gate_object_set: "gate_object out \<Longrightarrow> gate_object (set_gate_field out f v)"
  by (auto simp: gate_object_def set_gate_field_def update_conv' split: json.splits option.splits)

lemma path_set_same: "gate_object out \<Longrightarrow> path (set_gate_field out f v) [''gate'', f] = Some v"
  by (auto simp: gate_object_def set_gate_field_def update_conv' split: json.splits option.splits)

lemma path_set_other:
  "asc f' \<noteq> asc f \<Longrightarrow> path (set_gate_field out f v) [''gate'', f'] = path out [''gate'', f']"
  by (auto simp: set_gate_field_def update_conv' split: json.splits option.splits)

lemma get_set_outside:
  "asc k \<noteq> asc ''gate'' \<Longrightarrow> get (set_gate_field out f v) k = get out k"
  by (auto simp: set_gate_field_def update_conv' split: json.splits option.splits)

lemma path_set_outside:
  "asc k \<noteq> asc ''gate'' \<Longrightarrow> path (set_gate_field out f v) (k # ks) = path out (k # ks)"
  by (simp add: get_set_outside)

lemma set_same_value: "path out [''gate'', f] = Some v \<Longrightarrow> set_gate_field out f v = out"
  by (auto simp: path_gate_field set_gate_field_def update_triv simp del: path.simps)

lemma set_twice: "set_gate_field (set_gate_field out f v) f v' = set_gate_field out f v'"
  by (auto simp: set_gate_field_def update_conv' split: json.splits option.splits)

lemma push_array:
  "path out [''gate'', f] = Some (JArr xs) \<Longrightarrow>
     push out f m = Inr (set_gate_field out f (JArr (xs @ [JStr m])))"
  by (auto simp: path_gate_field push_def then_do_def member_def array_method_def
      simp del: path.simps)


lemma push_if:
  "path out [''gate'', f] = Some (JArr xs) \<Longrightarrow>
     (if c then push out f m else Inr out)
       = Inr (set_gate_field out f (JArr (xs @ map JStr (if c then [m] else []))))"
  by (simp add: push_array set_same_value del: path.simps)

lemma member_object: "member (Some (JObj kv)) k = Inr (map_of kv (asc k))"
  by (simp add: member_def)

lemma member_gate_object:
  "gate_object out \<Longrightarrow> member (Some out) k = Inr (get out k)"
  by (cases out) (simp_all add: member_def gate_object_def)

lemma gate_verdict_run:
  assumes rs: "path out [''gate'', ''reasons''] = Some (JArr rs)"
    and cs: "path out [''gate'', ''claimsNeedingCitations''] = Some (JArr cs)"
  shows "gate_verdict P out
           = Inr (rs \<noteq> [] \<or> truthy P (path out [''gate'', ''blocked'']) \<or> cs \<noteq> [])"
proof -
  from rs obtain okv gkv where o: "out = JObj okv"
      and g: "map_of okv (asc ''gate'') = Some (JObj gkv)"
      and r: "map_of gkv (asc ''reasons'') = Some (JArr rs)"
    unfolding path_gate_field by blast
  from cs o g have c: "map_of gkv (asc ''claimsNeedingCitations'') = Some (JArr cs)"
    by (simp split: option.splits)
  show ?thesis
    by (simp add: gate_verdict_def then_do_def member_def length_truthy_def o g r c path_end)
qed

lemma post_validate_run:
  assumes html: "path out [''article'', ''articleHtmlContent''] = Some (JStr html)"
    and rs: "path out [''gate'', ''reasons''] = Some (JArr rs)"
    and cs: "path out [''gate'', ''claimsNeedingCitations''] = Some (JArr cs)"
  shows "post_validate P out =
     Inr (let rs' = rs @ map JStr (structural_reasons html
                                     (path out [''article'', ''secondaryKeywords'']));
              cs' = cs @ map JStr (uncited_claims html);
              out' = set_gate_field (set_gate_field out ''reasons'' (JArr rs'))
                       ''claimsNeedingCitations'' (JArr cs')
          in if rs' \<noteq> [] \<or> truthy P (path out [''gate'', ''blocked'']) \<or> cs' \<noteq> []
             then set_gate_field out' ''blocked'' (JBool True) else out')"
proof -
  define stripped where "stripped = replace_tags html"
  define kw where "kw = path out [''article'', ''secondaryKeywords'']"
  define r1 where "r1 = (if count_matches stripped < 1200 then [MSG_too_short] else [])"
  define r2 where "r2 = (if \<not> has_disclaimer stripped then [MSG_no_disclaimer] else [])"
  define r3 where
    "r3 = (if \<not> is_array kw \<or> length (elements kw) < 3 then [MSG_keywords] else [])"
  define c1 where "c1 = (if has_claims stripped \<and> \<not> has_cites html then [MSG_claims] else [])"
  define o1 where "o1 = set_gate_field out ''reasons'' (JArr (rs @ map JStr r1))"
  define o2 where "o2 = set_gate_field out ''reasons'' (JArr (rs @ map JStr (r1 @ r2)))"
  define o3 where "o3 = set_gate_field out ''reasons'' (JArr (rs @ map JStr (r1 @ r2 @ r3)))"
  define o4 where "o4 = set_gate_field o3 ''claimsNeedingCitations'' (JArr (cs @ map JStr c1))"
  have gout: "gate_object out"
    using rs by (rule path_gate_object)
  from html obtain okv akv where o: "out = JObj okv"
      and a: "map_of okv (asc ''article'') = Some (JObj akv)"
      and h: "map_of akv (asc ''articleHtmlContent'') = Some (JStr html)"
    by (cases out) (auto split: option.splits json.splits dest: get_Some_obj)
  have ne: "asc ''article'' \<noteq> asc ''gate''"
    by (simp add: asc_def)
  have ne2: "asc ''claimsNeedingCitations'' \<noteq> asc ''reasons''"
       "asc ''reasons'' \<noteq> asc ''claimsNeedingCitations''"
       "asc ''blocked'' \<noteq> asc ''reasons''"
       "asc ''blocked'' \<noteq> asc ''claimsNeedingCitations''"
    by (simp_all add: asc_def)
  have read: "string_method
                (Some (or_default P
                         (opt_member (opt_member (Some out) ''article'') ''articleHtmlContent'')
                         (JStr [])))
                ''replace'' = Inr html"
    by (simp add: o a h opt_member_def or_default_def string_method_def)
  have s1: "(if count_matches stripped < 1200 then push out ''reasons'' MSG_too_short else Inr out)
              = Inr o1"
    unfolding o1_def r1_def by (rule push_if [OF rs])
  have p1: "path o1 [''gate'', ''reasons''] = Some (JArr (rs @ map JStr r1))"
    unfolding o1_def by (rule path_set_same [OF gout])
  have s2: "(if \<not> has_disclaimer stripped then push o1 ''reasons'' MSG_no_disclaimer else Inr o1)
              = Inr o2"
    unfolding o2_def r2_def push_if [OF p1] by (simp add: o1_def set_twice)
  have p2: "path o2 [''gate'', ''reasons''] = Some (JArr (rs @ map JStr (r1 @ r2)))"
    unfolding o2_def by (rule path_set_same [OF gout])
  have g2: "gate_object o2" "gate_object o3"
    unfolding o2_def o3_def by (rule gate_object_set [OF gout])+
  have art: "get o2 ''article'' = Some (JObj akv)" "get o3 ''article'' = Some (JObj akv)"
    unfolding o2_def o3_def by (simp_all add: get_set_outside [OF ne] o a)
  have kw: "kw = map_of akv (asc ''secondaryKeywords'')"
    by (simp add: kw_def o a path_end)
  have s3: "(if \<not> is_array kw \<or> length (elements kw) < 3
             then push o2 ''reasons'' MSG_keywords else Inr o2) = Inr o3"
    unfolding o3_def r3_def push_if [OF p2] by (simp add: o2_def set_twice)
  have p3: "path o3 [''gate'', ''claimsNeedingCitations''] = Some (JArr cs)"
    unfolding o3_def using cs by (simp only: path_set_other [OF ne2(1)])
  have s4: "(if has_claims stripped \<and> \<not> has_cites html
             then push o3 ''claimsNeedingCitations'' MSG_claims else Inr o3) = Inr o4"
    unfolding o4_def c1_def by (rule push_if [OF p3])
  have g3: "gate_object o3" by (rule g2(2))
  have p4r: "path o4 [''gate'', ''reasons''] = Some (JArr (rs @ map JStr (r1 @ r2 @ r3)))"
    unfolding o4_def
    by (simp only: path_set_other [OF ne2(2)]) (simp only: o3_def path_set_same [OF gout])
  have p4c: "path o4 [''gate'', ''claimsNeedingCitations''] = Some (JArr (cs @ map JStr c1))"
    unfolding o4_def by (rule path_set_same [OF g3])
  have p4b: "path o4 [''gate'', ''blocked''] = path out [''gate'', ''blocked'']"
    unfolding o4_def o3_def
    by (simp only: path_set_other [OF ne2(4)] path_set_other [OF ne2(3)])
  have v: "gate_verdict P o4
             = Inr (rs @ map JStr (r1 @ r2 @ r3) \<noteq> []
                    \<or> truthy P (path out [''gate'', ''blocked''])
                    \<or> cs @ map JStr c1 \<noteq> [])"
    unfolding gate_verdict_run [OF p4r p4c] p4b ..
  have ts: "ToString P (or_default P (Some (JStr html)) (JStr [])) = Inr html"
    by (simp add: or_default_def)
  have sr: "structural_reasons html kw = r1 @ r2 @ r3"
    by (simp add: structural_reasons_def r1_def r2_def r3_def stripped_def)
  have uc: "uncited_claims html = c1"
    by (simp add: uncited_claims_def c1_def stripped_def)
  have "post_validate P out =
          Inr (if rs @ map JStr (r1 @ r2 @ r3) \<noteq> []
                  \<or> truthy P (path out [''gate'', ''blocked''])
                  \<or> cs @ map JStr c1 \<noteq> []
               then set_gate_field o4 ''blocked'' (JBool True) else o4)"
    unfolding post_validate_def read
    by (simp only: then_do_def sum.case Let_def stripped_def [symmetric] s1 s2
          member_gate_object [OF g2(1)] member_gate_object [OF g2(2)] art member_object
          kw [symmetric] s3 h ts s4 v)
  then show ?thesis
    unfolding Let_def kw_def [symmetric] sr uc o4_def o3_def .
qed

subsection \<open>Post-validation of a result with a content and a gate\<close>

lemma is_string_Some: "is_string v \<longleftrightarrow> (\<exists>s. v = Some (JStr s))"
  by (auto simp: is_string_def split: option.splits json.splits)

lemma is_boolean_Some: "is_boolean v \<longleftrightarrow> (\<exists>b. v = Some (JBool b))"
  by (auto simp: is_boolean_def split: option.splits json.splits)

lemma is_string_array_Some: "is_string_array v \<Longrightarrow> \<exists>xs. v = Some (JArr xs)"
  by (auto simp: is_string_array_def split: option.splits json.splits)

lemma conforming_paths:
  assumes "conforming out"
  shows "\<exists>html kws b rs cs.
           path out [''article'', ''articleHtmlContent''] = Some (JStr html)
           \<and> path out [''article'', ''secondaryKeywords''] = Some (JArr kws)
           \<and> path out [''gate'', ''blocked''] = Some (JBool b)
           \<and> path out [''gate'', ''reasons''] = Some (JArr rs)
           \<and> path out [''gate'', ''claimsNeedingCitations''] = Some (JArr cs)"
proof -
  from assms obtain okv where o: "out = JObj okv"
    by (cases out) (simp_all add: conforming_def)
  from assms o obtain akv where a: "map_of okv (asc ''article'') = Some (JObj akv)"
      and a1: "is_string (map_of akv (asc ''articleHtmlContent''))"
      and a2: "is_string_array (map_of akv (asc ''secondaryKeywords''))"
    by (auto simp: conforming_def split: option.splits json.splits)
  from assms o obtain gkv where g: "map_of okv (asc ''gate'') = Some (JObj gkv)"
      and g1: "is_boolean (map_of gkv (asc ''blocked''))"
      and g2: "is_string_array (map_of gkv (asc ''reasons''))"
      and g3: "is_string_array (map_of gkv (asc ''claimsNeedingCitations''))"
    by (auto simp: conforming_def split: option.splits json.splits)
  from a1 a2 g1 g2 g3 show ?thesis
    by (auto simp: o a g is_string_Some is_boolean_Some dest!: is_string_array_Some)
qed

lemma post_validate_reads:
  assumes html: "path out [''article'', ''articleHtmlContent''] = Some (JStr html)"
    and rs: "path out [''gate'', ''reasons''] = Some (JArr rs)"
    and cs: "path out [''gate'', ''claimsNeedingCitations''] = Some (JArr cs)"
  shows "\<exists>out'. post_validate P out = Inr out'
           \<and> path out' [''gate'', ''reasons'']
               = Some (JArr (rs @ map JStr (structural_reasons html
                                              (path out [''article'', ''secondaryKeywords'']))))
           \<and> path out' [''gate'', ''claimsNeedingCitations'']
               = Some (JArr (cs @ map JStr (uncited_claims html)))
           \<and> path out' [''gate'', ''blocked'']
               = (if rs @ map JStr (structural_reasons html
                                     (path out [''article'', ''secondaryKeywords''])) \<noteq> []
                     \<or> truthy P (path out [''gate'', ''blocked''])
                     \<or> cs @ map JStr (uncited_claims html) \<noteq> []
                  then Some (JBool True) else path out [''gate'', ''blocked''])
           \<and> get out' ''article'' = get out ''article''
           \<and> get out' ''metadata'' = get out ''metadata''"
proof -
  define rs' where
    "rs' = rs @ map JStr (structural_reasons html (path out [''article'', ''secondaryKeywords'']))"
  define cs' where "cs' = cs @ map JStr (uncited_claims html)"
  define o1 where "o1 = set_gate_field out ''reasons'' (JArr rs')"
  define o2 where "o2 = set_gate_field o1 ''claimsNeedingCitations'' (JArr cs')"
  define v where "v \<longleftrightarrow> rs' \<noteq> [] \<or> truthy P (path out [''gate'', ''blocked'']) \<or> cs' \<noteq> []"
  define o3 where "o3 = (if v then set_gate_field o2 ''blocked'' (JBool True) else o2)"
  have run: "post_validate P out = Inr o3"
    unfolding post_validate_run [OF html rs cs] Let_def o3_def v_def o2_def o1_def rs'_def cs'_def ..
  have ne: "asc ''claimsNeedingCitations'' \<noteq> asc ''reasons''"
       "asc ''reasons'' \<noteq> asc ''claimsNeedingCitations''"
       "asc ''blocked'' \<noteq> asc ''reasons''"
       "asc ''blocked'' \<noteq> asc ''claimsNeedingCitations''"
       "asc ''reasons'' \<noteq> asc ''blocked''"
       "asc ''claimsNeedingCitations'' \<noteq> asc ''blocked''"
       "asc ''article'' \<noteq> asc ''gate''"
       "asc ''metadata'' \<noteq> asc ''gate''"
    by (simp_all add: asc_def)
  have g0: "gate_object out" using rs by (rule path_gate_object)
  have g1: "gate_object o1" unfolding o1_def by (rule gate_object_set [OF g0])
  have g2: "gate_object o2" unfolding o2_def by (rule gate_object_set [OF g1])
  have r2: "path o2 [''gate'', ''reasons''] = Some (JArr rs')"
    unfolding o2_def by (simp only: path_set_other [OF ne(2)]) (simp only: o1_def path_set_same [OF g0])
  have c2: "path o2 [''gate'', ''claimsNeedingCitations''] = Some (JArr cs')"
    unfolding o2_def by (rule path_set_same [OF g1])
  have b2: "path o2 [''gate'', ''blocked''] = path out [''gate'', ''blocked'']"
    unfolding o2_def o1_def by (simp only: path_set_other [OF ne(4)] path_set_other [OF ne(3)])
  have r3: "path o3 [''gate'', ''reasons''] = Some (JArr rs')"
    unfolding o3_def using r2
    by (cases v) (simp_all only: if_True if_False path_set_other [OF ne(5)])
  have c3: "path o3 [''gate'', ''claimsNeedingCitations''] = Some (JArr cs')"
    unfolding o3_def using c2
    by (cases v) (simp_all only: if_True if_False path_set_other [OF ne(6)])
  have b3: "path o3 [''gate'', ''blocked'']
              = (if v then Some (JBool True) else path out [''gate'', ''blocked''])"
    unfolding o3_def using b2
    by (cases v) (simp_all only: if_True if_False path_set_same [OF g2])
  have a3: "get o3 ''article'' = get out ''article''"
    unfolding o3_def o2_def o1_def
    by (cases v) (simp_all only: if_True if_False get_set_outside [OF ne(7)])
  have m3: "get o3 ''metadata'' = get out ''metadata''"
    unfolding o3_def o2_def o1_def
    by (cases v) (simp_all only: if_True if_False get_set_outside [OF ne(8)])
  from run r3 c3 b3 a3 m3 show ?thesis
    unfolding rs'_def cs'_def v_def by blast
qed


subsection \<open>Pre-validation and the handler\<close>

lemma or_default_sources:
  assumes "is_array v \<or> \<not> truthy P v"
  shows "array_method (Some (or_default P v (JArr []))) m = Inr (elements v)"
proof (cases v)
  case None
  then show ?thesis by (simp add: or_default_def array_method_def elements_def)
next
  case (Some x)
  with assms show ?thesis
    by (cases x) (simp_all add: or_default_def array_method_def elements_def is_array_def)
qed




lemma pre_validate_run:
  assumes "is_array (get p ''sources'') \<or> \<not> truthy P (get p ''sources'')"
  shows "pre_validate P p =
     (if \<exists>s \<in> set (elements (get p ''sources'')). \<not> isAllowedSource P s
      then then_do (array_join P (filter (\<lambda>s. \<not> isAllowedSource P s)
                                    (elements (get p ''sources''))) (asc '', ''))
             (\<lambda>joined.
                Inr ((if \<not> truthy P (get p ''topic'') \<or> \<not> truthy P (get p ''primaryKeyword'')
                         \<or> \<not> truthy P (get p ''outline'')
                      then [MSG_required] else [])
                     @ (if \<not> is_array (get p ''sources'')
                           \<or> length (elements (get p ''sources'')) < 3
                           \<or> length (elements (get p ''sources'')) > 6
                        then [MSG_source_count] else [])
                     @ [MSG_untrusted @ joined]))
      else Inr ((if \<not> truthy P (get p ''topic'') \<or> \<not> truthy P (get p ''primaryKeyword'')
                    \<or> \<not> truthy P (get p ''outline'')
                 then [MSG_required] else [])
                @ (if \<not> is_array (get p ''sources'')
                      \<or> length (elements (get p ''sources'')) < 3
                      \<or> length (elements (get p ''sources'')) > 6
                   then [MSG_source_count] else [])))"
proof -
  define reasons2 where
    "reasons2 =
       (if \<not> truthy P (get p ''topic'') \<or> \<not> truthy P (get p ''primaryKeyword'')
           \<or> \<not> truthy P (get p ''outline'')
        then [MSG_required] else [])
       @ (if \<not> is_array (get p ''sources'')
             \<or> length (elements (get p ''sources'')) < 3
             \<or> length (elements (get p ''sources'')) > 6
          then [MSG_source_count] else [])"
  define bad where
    "bad = filter (\<lambda>s. \<not> isAllowedSource P s) (elements (get p ''sources''))"
  have b: "bad \<noteq> [] \<longleftrightarrow> (\<exists>s \<in> set (elements (get p ''sources'')). \<not> isAllowedSource P s)"
    by (simp add: bad_def filter_empty_conv)
  have r: "(if \<not> is_array (get p ''sources'') \<or> length (elements (get p ''sources'')) < 3
               \<or> length (elements (get p ''sources'')) > 6
            then (if \<not> truthy P (get p ''topic'') \<or> \<not> truthy P (get p ''primaryKeyword'')
                     \<or> \<not> truthy P (get p ''outline'')
                  then [MSG_required] else []) @ [MSG_source_count]
            else (if \<not> truthy P (get p ''topic'') \<or> \<not> truthy P (get p ''primaryKeyword'')
                     \<or> \<not> truthy P (get p ''outline'')
                  then [MSG_required] else [])) = reasons2"
    by (simp add: reasons2_def)
  have "pre_validate P p =
          (if bad \<noteq> []
           then then_do (array_join P bad (asc '', ''))
                  (\<lambda>joined. Inr (reasons2 @ [MSG_untrusted @ joined]))
           else Inr reasons2)"
    unfolding pre_validate_def Let_def or_default_sources [OF assms] r
    by (simp only: then_do_def sum.case bad_def)
  then have "pre_validate P p =
          (if \<exists>s \<in> set (elements (get p ''sources'')). \<not> isAllowedSource P s
           then then_do (array_join P bad (asc '', ''))
                  (\<lambda>joined. Inr (reasons2 @ [MSG_untrusted @ joined]))
           else Inr reasons2)"
    by (simp only: b)
  then show ?thesis
    unfolding reasons2_def bad_def by (simp only: append_assoc)
qed

lemma pre_validate_throws:
  assumes "truthy P (get p ''sources'')" and "\<not> is_array (get p ''sources'')"
  shows "pre_validate P p = Inl (NotAFunction ''filter'')"
proof -
  from assms obtain x where x: "get p ''sources'' = Some x"
    by (cases "get p ''sources''") simp_all
  with assms show ?thesis
    unfolding pre_validate_def Let_def
    by (cases x) (simp_all add: or_default_def array_method_def then_do_def is_array_def)
qed

lemma pre_gate_never_generates:
  "pre_validate P (or_default P body (JObj [])) \<noteq> Inr []
     \<Longrightarrow> snd (article_handler P body calls) = calls"
  by (auto simp: article_handler_def Let_def split: sum.splits)

lemma gpt5Structured_one_request:
  "\<exists>request. snd (gpt5Structured P system user schema calls) = calls @ [request]"
  by (simp add: gpt5Structured_def Let_def)

lemma handler_after_generation:
  assumes "pre_validate P (or_default P body (JObj [])) = Inr []"
    and "ARTICLE_USER P (or_default P body (JObj [])) = Inr user"
  shows "article_handler P body calls =
     ((case fst (gpt5Structured P SYS_COMMON user articleSchema calls) of
         Inl e \<Rightarrow> bad_request e
       | Inr out \<Rightarrow> (case post_validate P out of
                       Inl e \<Rightarrow> bad_request e
                     | Inr out' \<Rightarrow> Json out')),
      snd (gpt5Structured P SYS_COMMON user articleSchema calls))"
  using assms
  by (simp add: article_handler_def Let_def split: sum.splits prod.splits)


subsection \<open>Reasons and samples\<close>



lemma conforming_sample: "conforming (sample_result html)"
  by (simp add: conforming_def sample_result_def has_keys_def is_string_def is_boolean_def
      is_string_array_def str_def asc_def)

lemma sample_request_body: "or_default P (Some sample_request) (JObj []) = sample_request"
  by (simp add: or_default_def sample_request_def)

lemma sample_request_passes: "pre_validate (stub_platform r q) sample_request = Inr []"
proof -
  have s: "get sample_request ''sources''
             = Some (JArr [str ''https://www.cdc.gov/diabetes'', str ''https://www.who.int/diabetes'',
                           str ''https://medlineplus.gov/diabetes''])"
    by (simp add: sample_request_def asc_def)
  have a: "isAllowedSource (stub_platform r q) (str ''https://www.cdc.gov/diabetes'')"
       "isAllowedSource (stub_platform r q) (str ''https://www.who.int/diabetes'')"
       "isAllowedSource (stub_platform r q) (str ''https://medlineplus.gov/diabetes'')"
    by (simp_all add: isAllowedSource_def stub_platform_def stub_hostname_def match_literal_def
        lower_ascii_def str_def asc_def SAFE_DOMAINS_def endsWith_def)
  have f: "truthy (stub_platform r q) (get sample_request ''topic'')"
       "truthy (stub_platform r q) (get sample_request ''primaryKeyword'')"
       "truthy (stub_platform r q) (get sample_request ''outline'')"
    by (simp_all add: sample_request_def str_def asc_def)
  have "is_array (get sample_request ''sources'')
          \<or> \<not> truthy (stub_platform r q) (get sample_request ''sources'')"
    unfolding s by (simp add: is_array_def)
  from pre_validate_run [OF this] show ?thesis
    unfolding s by (simp add: f a is_array_def elements_def)
qed

lemma sample_request_prompt: "\<exists>user. ARTICLE_USER P sample_request = Inr user"
  by (simp add: ARTICLE_USER_def sample_request_def then_do_def template_def or_default_def
      array_method_def str_def asc_def del: decimal.simps)

lemma sample_generation:
  "fst (gpt5Structured (stub_platform (Inr sample_response) q) system user schema calls) = q"
  by (simp add: gpt5Structured_def Let_def stub_platform_def then_do_def message_content_def
      sample_response_def member_def index0_def opt_member_def or_default_def str_def asc_def)

lemma failed_generation:
  "fst (gpt5Structured (stub_platform (Inl e) q) system user schema calls) = Inl e"
  by (simp add: gpt5Structured_def Let_def stub_platform_def then_do_def)

lemma empty_text_checks:
  "replace_tags [] = []" "count_matches [] = 0" "\<not> has_disclaimer []" "\<not> has_claims []"
  "\<not> has_cites []"
  by (simp_all add: has_disclaimer_def disclaimer_at_def two_words_at_def match_literal_i_def
      DISCLAIMER_1a_def DISCLAIMER_1b_def DISCLAIMER_2a_def DISCLAIMER_2b_def asc_def
      has_claims_def claim_at_def boundary_def word_char_def first_cu_def has_cites_def
      cite_at_def)

lemma partial_result_validated:
  "post_validate P sample_partial_result =
     Inr (JObj [(asc ''article'', JObj []),
                (asc ''gate'',
                 JObj [(asc ''reasons'',
                        JArr [JStr MSG_too_short, JStr MSG_no_disclaimer, JStr MSG_keywords]),
                       (asc ''claimsNeedingCitations'', JArr []),
                       (asc ''blocked'', JBool True)])])"
  by (simp add: post_validate_def sample_partial_result_def then_do_def opt_member_def
      or_default_def string_method_def empty_text_checks push_def member_def array_method_def
      set_gate_field_def is_array_def gate_verdict_def length_truthy_def asc_def Let_def)

lemma empty_result_throws: "post_validate P (JObj []) = Inl (CannotRead ''reasons'')"
  by (simp add: post_validate_def then_do_def opt_member_def or_default_def string_method_def
      empty_text_checks push_def member_def Let_def)



lemma citation_suppresses_claim: "bracketed_integer_in html \<Longrightarrow> uncited_claims html = []"
  by (simp add: uncited_claims_def has_cites_iff)

section \<open>The claims\<close>

subsection \<open>SourceValidator\<close>

text \<open>
  C2. For every string, \<open>isAllowedSource\<close> answers true exactly when the string parses as a
  URL whose lower-cased host name is one of the seven trusted domains, or ends in a dot
  followed by one of them, or ends in \<^verbatim>\<open>.gov\<close> or \<^verbatim>\<open>.edu\<close>; a string that does not
  parse gives false, and no exception leaves the function (its result is a boolean in
  every case).
\<close>

theorem isAllowedSource_spec:
  "(isAllowedSource P (JStr url) \<longleftrightarrow>
      (\<exists>h. URL_hostname P (JStr url) = Some h \<and>
           (toLowerCase P h \<in> {asc ''who.int'', asc ''cdc.gov'', asc ''nhs.uk'',
                                  asc ''pubmed.ncbi.nlm.nih.gov'', asc ''ncbi.nlm.nih.gov'',
                                  asc ''mayoclinic.org'', asc ''nih.gov''}
            \<or> (\<exists>sd \<in> {asc ''who.int'', asc ''cdc.gov'', asc ''nhs.uk'',
                          asc ''pubmed.ncbi.nlm.nih.gov'', asc ''ncbi.nlm.nih.gov'',
                          asc ''mayoclinic.org'', asc ''nih.gov''}.
                   suffix (asc ''.'' @ sd) (toLowerCase P h))
            \<or> suffix (asc ''.gov'') (toLowerCase P h)
            \<or> suffix (asc ''.edu'') (toLowerCase P h))))
   \<and> (URL_hostname P (JStr url) = None \<longrightarrow> \<not> isAllowedSource P (JStr url))"
proof (cases "URL_hostname P (JStr url)")
  case None
  then show ?thesis by (simp add: isAllowedSource_def)
next
  case (Some h)
  have "set SAFE_DOMAINS = {asc ''who.int'', asc ''cdc.gov'', asc ''nhs.uk'',
          asc ''pubmed.ncbi.nlm.nih.gov'', asc ''ncbi.nlm.nih.gov'',
          asc ''mayoclinic.org'', asc ''nih.gov''}"
    by (simp add: SAFE_DOMAINS_def)
  then show ?thesis
    using Some
    by (auto simp add: isAllowedSource_def Let_def list_ex_iff endsWith_suffix simp del: set_simps)
qed

theorem isAllowedSource_spec_witness:
  "URL_hostname (stub_platform (Inl (Failure [])) (Inl (Failure []))) (JStr (asc ''not a url''))
     = None
   \<and> \<not> isAllowedSource (stub_platform (Inl (Failure [])) (Inl (Failure [])))
         (JStr (asc ''not a url''))
   \<and> isAllowedSource (stub_platform (Inl (Failure [])) (Inl (Failure [])))
         (JStr (asc ''https://www.CDC.gov/flu''))
   \<and> \<not> isAllowedSource (stub_platform (Inl (Failure [])) (Inl (Failure [])))
         (JStr (asc ''https://example.com/flu''))"
proof -
  define P where "P = stub_platform (Inl (Failure [])) (Inl (Failure []))"
  have h: "URL_hostname P (JStr (asc ''not a url'')) = None"
    by (simp add: P_def stub_platform_def stub_hostname_def match_literal_def asc_def)
  have u: "URL_hostname P (JStr (asc ''https://www.CDC.gov/flu'')) = Some (asc ''www.CDC.gov'')"
    by (simp add: P_def stub_platform_def stub_hostname_def match_literal_def asc_def)
  have l: "toLowerCase P (asc ''www.CDC.gov'') = asc ''www'' @ asc ''.'' @ asc ''cdc.gov''"
    by (simp add: P_def stub_platform_def lower_ascii_def asc_def)
  have s: "suffix (asc ''.'' @ asc ''cdc.gov'') (toLowerCase P (asc ''www.CDC.gov''))"
    unfolding l by (rule suffixI) simp
  have e: "URL_hostname P (JStr (asc ''https://example.com/flu'')) = Some (asc ''example.com'')"
    by (simp add: P_def stub_platform_def stub_hostname_def match_literal_def asc_def)
  have n: "\<not> isAllowedSource P (JStr (asc ''https://example.com/flu''))"
    unfolding isAllowedSource_spec [THEN conjunct1] e
    by (simp add: P_def stub_platform_def lower_ascii_def asc_def suffix_def append_eq_Cons_conv
        append_eq_append_conv2 Cons_eq_append_conv)
  from isAllowedSource_spec [THEN conjunct2, rule_format, OF h] h
       isAllowedSource_spec [THEN conjunct1, THEN iffD2, of P "asc ''https://www.CDC.gov/flu''"]
       u s n
  show ?thesis
    unfolding P_def [symmetric] by blast
qed

subsection \<open>Pre-validation\<close>

text \<open>
  C1. The claim: whenever a pre-validation reason exists, the operation returns a blocked
  verdict and the backend is never asked. The backend is indeed never asked
  (\<open>pre_gate_never_generates\<close>), and a request whose sources are absent or a sequence of
  strings is blocked (C6). But for a request whose \<^verbatim>\<open>sources\<close> is a string, the reason recorded by
  the test \<^verbatim>\<open>Array.isArray\<close> is lost: the next line calls \<^verbatim>\<open>filter\<close> on the string, the
  TypeError is caught, and the reply is status 400 instead of a blocked verdict.
\<close>

theorem non_array_sources_not_blocked:
  "article_handler P
     (Some (JObj [(asc ''topic'', str ''diabetes''),
                  (asc ''primaryKeyword'', str ''diabetes''),
                  (asc ''outline'', str ''H2 Overview''),
                  (asc ''sources'', str ''https://www.cdc.gov/diabetes'')]))
     calls
   = (BadRequestEngine (NotAFunction ''filter''), calls)"
  by (simp add: article_handler_def or_default_def pre_validate_def array_method_def
      then_do_def bad_request_def str_def asc_def Let_def)

theorem non_array_sources_not_blocked_witness:
  "fst (article_handler (stub_platform (Inr sample_response) (Inl (Failure [])))
         (Some (JObj [(asc ''topic'', str ''diabetes''),
                      (asc ''primaryKeyword'', str ''diabetes''),
                      (asc ''outline'', str ''H2 Overview''),
                      (asc ''sources'', str ''https://www.cdc.gov/diabetes'')]))
         []) = BadRequestEngine (NotAFunction ''filter'')
   \<and> snd (article_handler (stub_platform (Inr sample_response) (Inl (Failure [])))
           (Some (JObj [(asc ''topic'', str ''diabetes''),
                        (asc ''primaryKeyword'', str ''diabetes''),
                        (asc ''outline'', str ''H2 Overview''),
                        (asc ''sources'', str ''https://www.cdc.gov/diabetes'')]))
           []) = []"
  using non_array_sources_not_blocked
          [of "stub_platform (Inr sample_response) (Inl (Failure []))" "[]"]
  by simp

text \<open>
  C10. A request whose \<^verbatim>\<open>sources\<close> is present and truthy but not a sequence, a string for
  instance, gets no blocked response: the handler answers status 400 with the TypeError
  of \<^verbatim>\<open>filter\<close>, and makes no request to the backend.
\<close>

theorem non_array_sources_request_failure:
  assumes "p = or_default P body (JObj [])"
    and "truthy P (get p ''sources'')" and "\<not> is_array (get p ''sources'')"
  shows "article_handler P body calls = (BadRequestEngine (NotAFunction ''filter''), calls)"
  using pre_validate_throws [OF assms(2,3)]
  by (simp add: article_handler_def Let_def assms(1) [symmetric] bad_request_def)

theorem non_array_sources_request_failure_witness:
  "truthy (stub_platform (Inr sample_response) (Inl (Failure [])))
     (get (JObj [(asc ''sources'', str ''sources.txt'')]) ''sources'')
   \<and> \<not> is_array (get (JObj [(asc ''sources'', str ''sources.txt'')]) ''sources'')
   \<and> article_handler (stub_platform (Inr sample_response) (Inl (Failure [])))
       (Some (JObj [(asc ''sources'', str ''sources.txt'')])) []
       = (BadRequestEngine (NotAFunction ''filter''), [])"
proof -
  define P where "P = stub_platform (Inr sample_response) (Inl (Failure []))"
  define p where "p = JObj [(asc ''sources'', str ''sources.txt'')]"
  have b: "p = or_default P (Some p) (JObj [])"
    by (simp add: or_default_def p_def)
  have t: "truthy P (get p ''sources'')"
    by (simp add: p_def str_def asc_def)
  have a: "\<not> is_array (get p ''sources'')"
    by (simp add: p_def str_def is_array_def)
  from non_array_sources_request_failure [OF b t a] t a show ?thesis
    unfolding P_def p_def by blast
qed




subsection \<open>Generation\<close>

text \<open>
  C8, as stated, fails for a result that does not conform: the handler does not check the
  shape of the result, so a result without metadata, title, content, keywords and
  \<^verbatim>\<open>blocked\<close> is post-validated and returned with status 200.
\<close>

theorem nonconforming_result_returned:
  "\<not> conforming sample_partial_result
   \<and> pre_validate (stub_platform (Inr sample_response) (Inr sample_partial_result))
       sample_request = Inr []
   \<and> fst (article_handler (stub_platform (Inr sample_response) (Inr sample_partial_result))
           (Some sample_request) []) =
       Json (JObj [(asc ''article'', JObj []),
                   (asc ''gate'',
                    JObj [(asc ''reasons'',
                           JArr [JStr MSG_too_short, JStr MSG_no_disclaimer, JStr MSG_keywords]),
                          (asc ''claimsNeedingCitations'', JArr []),
                          (asc ''blocked'', JBool True)])])"
proof -
  define P where "P = stub_platform (Inr sample_response) (Inr sample_partial_result)"
  have n: "\<not> conforming sample_partial_result"
    by (simp add: conforming_def sample_partial_result_def asc_def)
  have pre: "pre_validate P (or_default P (Some sample_request) (JObj [])) = Inr []"
    unfolding sample_request_body P_def by (rule sample_request_passes)
  obtain user where user: "ARTICLE_USER P (or_default P (Some sample_request) (JObj [])) = Inr user"
    unfolding sample_request_body using sample_request_prompt by blast
  have gen: "fst (gpt5Structured P SYS_COMMON user articleSchema []) = Inr sample_partial_result"
    unfolding P_def by (rule sample_generation)
  have "fst (article_handler P (Some sample_request) []) =
       Json (JObj [(asc ''article'', JObj []),
                   (asc ''gate'',
                    JObj [(asc ''reasons'',
                           JArr [JStr MSG_too_short, JStr MSG_no_disclaimer, JStr MSG_keywords]),
                          (asc ''claimsNeedingCitations'', JArr []),
                          (asc ''blocked'', JBool True)])])"
    unfolding handler_after_generation [OF pre user]
    by (simp add: gen partial_result_validated)
  with n pre show ?thesis
    unfolding sample_request_body P_def by blast
qed

text \<open>
  C8, amended. For every request that passes pre-validation and whose prompt is built: if
  the invocation of the backend fails (the call or the parsing of its content throws), or
  yields a result on which post-validation throws, the reply is status 400 with the
  message of the exception (\<^verbatim>\<open>Bad Request\<close> when that message is empty), exactly one
  request has been made to the backend, and no response object is returned.
\<close>

theorem generation_failure_surfaces:
  assumes "pre_validate P (or_default P body (JObj [])) = Inr []"
    and "ARTICLE_USER P (or_default P body (JObj [])) = Inr user"
    and "fst (gpt5Structured P SYS_COMMON user articleSchema calls) = Inl e
         \<or> (\<exists>out. fst (gpt5Structured P SYS_COMMON user articleSchema calls) = Inr out
                  \<and> post_validate P out = Inl e)"
  shows "fst (article_handler P body calls)
           = (case e of
                Failure m \<Rightarrow> BadRequest (if m \<noteq> [] then m else asc ''Bad Request'')
              | _ \<Rightarrow> BadRequestEngine e)
         \<and> (\<exists>request. snd (article_handler P body calls) = calls @ [request])"
proof -
  have "fst (article_handler P body calls) = bad_request e"
    unfolding handler_after_generation [OF assms(1,2)] using assms(3) by auto
  moreover have "\<exists>request. snd (article_handler P body calls) = calls @ [request]"
    unfolding handler_after_generation [OF assms(1,2)]
    using gpt5Structured_one_request by simp
  ultimately show ?thesis
    unfolding bad_request_def by simp
qed

theorem generation_failure_surfaces_witness:
  "pre_validate (stub_platform (Inl (Failure (asc ''rate limit''))) (Inl (Failure [])))
     sample_request = Inr []
   \<and> fst (article_handler (stub_platform (Inl (Failure (asc ''rate limit''))) (Inl (Failure [])))
           (Some sample_request) []) = BadRequest (asc ''rate limit'')
   \<and> length (snd (article_handler
                    (stub_platform (Inl (Failure (asc ''rate limit''))) (Inl (Failure [])))
                    (Some sample_request) [])) = 1
   \<and> fst (article_handler (stub_platform (Inr (JObj [])) (Inr (JObj [])))
           (Some sample_request) []) = BadRequestEngine (CannotRead ''reasons'')"
proof -
  define P where "P = stub_platform (Inl (Failure (asc ''rate limit''))) (Inl (Failure []))"
  define Q where "Q = stub_platform (Inr (JObj [])) (Inr (JObj []))"
  have pre: "pre_validate P (or_default P (Some sample_request) (JObj [])) = Inr []"
    unfolding sample_request_body P_def by (rule sample_request_passes)
  obtain user where user: "ARTICLE_USER P (or_default P (Some sample_request) (JObj [])) = Inr user"
    unfolding sample_request_body using sample_request_prompt by blast
  have gen: "fst (gpt5Structured P SYS_COMMON user articleSchema [])
               = Inl (Failure (asc ''rate limit''))"
    unfolding P_def by (rule failed_generation)
  have m: "asc ''rate limit'' \<noteq> []"
    by (simp add: asc_def)
  have pre': "pre_validate Q (or_default Q (Some sample_request) (JObj [])) = Inr []"
    unfolding sample_request_body Q_def by (rule sample_request_passes)
  obtain user' where
    user': "ARTICLE_USER Q (or_default Q (Some sample_request) (JObj [])) = Inr user'"
    unfolding sample_request_body using sample_request_prompt by blast
  have gen': "fst (gpt5Structured Q SYS_COMMON user' articleSchema []) = Inr (JObj [])"
    unfolding Q_def
    by (simp add: gpt5Structured_def Let_def stub_platform_def then_do_def message_content_def
        member_def index0_def opt_member_def or_default_def str_def)
  have thrown: "\<exists>out. fst (gpt5Structured Q SYS_COMMON user' articleSchema []) = Inr out
                  \<and> post_validate Q out = Inl (CannotRead ''reasons'')"
    using gen' empty_result_throws by blast
  from generation_failure_surfaces [OF pre user disjI1 [OF gen]]
       generation_failure_surfaces [OF pre' user' disjI2 [OF thrown]] pre m
  show ?thesis
    unfolding sample_request_body P_def [symmetric] Q_def [symmetric] by auto
qed

subsection \<open>Post-validation\<close>

text \<open>
  C3. For every conforming result, post-validation succeeds and the final
  \<^verbatim>\<open>gate.blocked\<close> is the boolean "the final reasons are not empty, or the final claims
  needing citations are not empty, or the backend reported \<^verbatim>\<open>blocked\<close> true": true in
  these cases and false in all others.
\<close>

theorem aggregation_blocked:
  assumes "conforming out"
  shows "\<exists>out'. post_validate P out = Inr out'
           \<and> path out' [''gate'', ''blocked'']
               = Some (JBool (gate_reasons out' \<noteq> [] \<or> gate_claims out' \<noteq> []
                              \<or> path out [''gate'', ''blocked''] = Some (JBool True)))"
proof -
  from conforming_paths [OF assms] obtain html kws b rs cs
    where html: "path out [''article'', ''articleHtmlContent''] = Some (JStr html)"
      and b: "path out [''gate'', ''blocked''] = Some (JBool b)"
      and rs: "path out [''gate'', ''reasons''] = Some (JArr rs)"
      and cs: "path out [''gate'', ''claimsNeedingCitations''] = Some (JArr cs)"
    by blast
  from post_validate_reads [OF html rs cs, of P] obtain out' rs' cs'
    where run: "post_validate P out = Inr out'"
      and r: "path out' [''gate'', ''reasons''] = Some (JArr rs')"
      and c: "path out' [''gate'', ''claimsNeedingCitations''] = Some (JArr cs')"
      and v: "path out' [''gate'', ''blocked'']
                = (if rs' \<noteq> [] \<or> truthy P (path out [''gate'', ''blocked'']) \<or> cs' \<noteq> []
                   then Some (JBool True) else path out [''gate'', ''blocked''])"
    by blast
  have "path out' [''gate'', ''blocked'']
          = Some (JBool (gate_reasons out' \<noteq> [] \<or> gate_claims out' \<noteq> []
                         \<or> path out [''gate'', ''blocked''] = Some (JBool True)))"
    unfolding v gate_reasons_def gate_claims_def r c b
    by (cases b) (auto simp: elements_def)
  with run show ?thesis by blast
qed

theorem aggregation_blocked_witness:
  "conforming (sample_result (asc ''<p>Disclaimer</p>''))
   \<and> (\<exists>out'. post_validate (stub_platform (Inr sample_response) (Inl (Failure [])))
                (sample_result (asc ''<p>Disclaimer</p>'')) = Inr out'
           \<and> path out' [''gate'', ''blocked'']
               = Some (JBool (gate_reasons out' \<noteq> [] \<or> gate_claims out' \<noteq> []
                              \<or> path (sample_result (asc ''<p>Disclaimer</p>''))
                                   [''gate'', ''blocked''] = Some (JBool True))))"
proof -
  have h: "conforming (sample_result (asc ''<p>Disclaimer</p>''))"
    by (rule conforming_sample)
  from aggregation_blocked [OF h] h show ?thesis
    by blast
qed

text \<open>
  C4. The claim: a text that contains a claim verb as a whole word, with no bracketed
  integer in the HTML, gets one entry in \<^verbatim>\<open>claimsNeedingCitations\<close>. The code does not do
  so for an Arabic sentence: \<^verbatim>\<open>\b\<close> needs an ASCII letter, digit or underscore next to
  the verb, so a verb between spaces or Arabic letters never matches
  (\<open>has_claims_needs_word\<close>). Here the verb is a token of the text, the HTML has no
  citation marker, and nothing is appended. (That a bracketed integer suppresses the
  entry does hold: \<open>citation_suppresses_claim\<close>.)
\<close>

theorem claim_verb_as_whole_word_not_flagged:
  "CLAIM_VERBS ! 0 \<in> set (tokens (replace_tags (asc ''<p>'' @ arabic_claim_sentence @ asc ''</p>'')))
   \<and> \<not> has_cites (asc ''<p>'' @ arabic_claim_sentence @ asc ''</p>'')
   \<and> (\<exists>out'. post_validate P (sample_result (asc ''<p>'' @ arabic_claim_sentence @ asc ''</p>''))
                = Inr out'
           \<and> gate_claims out' = [])"
proof -
  define html where "html = asc ''<p>'' @ arabic_claim_sentence @ asc ''</p>''"
  have strip: "replace_tags html = [0x20] @ arabic_claim_sentence @ [0x20]"
    by (simp add: html_def arabic_claim_sentence_def asc_def tag_at_def)
  have tok: "CLAIM_VERBS ! 0 \<in> set (tokens (replace_tags html))"
    unfolding strip
    by (simp add: arabic_claim_sentence_def CLAIM_VERBS_def tokens_def is_space_def)
  have "\<forall>c \<in> set (replace_tags html). \<not> is_word c"
    unfolding strip by (simp add: arabic_claim_sentence_def is_word_def is_digit_def)
  then have nc: "\<not> has_claims (replace_tags html)"
    by (rule has_claims_needs_word)
  have cites: "\<not> has_cites html"
    by (simp add: html_def arabic_claim_sentence_def asc_def has_cites_def cite_at_def)
  have h: "path (sample_result html) [''article'', ''articleHtmlContent''] = Some (JStr html)"
    by (simp add: sample_result_def asc_def)
  have r: "path (sample_result html) [''gate'', ''reasons''] = Some (JArr [])"
    by (simp add: sample_result_def asc_def)
  have c: "path (sample_result html) [''gate'', ''claimsNeedingCitations''] = Some (JArr [])"
    by (simp add: sample_result_def asc_def)
  from post_validate_reads [OF h r c, of P] obtain out'
    where run: "post_validate P (sample_result html) = Inr out'"
      and k: "path out' [''gate'', ''claimsNeedingCitations'']
                = Some (JArr ([] @ map JStr (uncited_claims html)))"
    by blast
  have "gate_claims out' = []"
    unfolding gate_claims_def k by (simp add: uncited_claims_def nc elements_def)
  with run tok cites show ?thesis
    unfolding html_def by blast
qed

theorem claim_verb_as_whole_word_not_flagged_witness:
  "\<exists>out'. post_validate (stub_platform (Inr sample_response) (Inl (Failure [])))
            (sample_result (asc ''<p>'' @ arabic_claim_sentence @ asc ''</p>'')) = Inr out'
          \<and> gate_claims out' = []"
  using claim_verb_as_whole_word_not_flagged
          [of "stub_platform (Inr sample_response) (Inl (Failure []))"]
  by blast



text \<open>
  C7. For every request that reaches generation and every conforming result, the reply is
  the result with its article and metadata unchanged, and the reasons and claims reported
  by the backend are prefixes of the final ones.
\<close>

theorem post_validation_appends_only:
  assumes "pre_validate P (or_default P body (JObj [])) = Inr []"
    and "ARTICLE_USER P (or_default P body (JObj [])) = Inr user"
    and "fst (gpt5Structured P SYS_COMMON user articleSchema calls) = Inr out"
    and "conforming out"
  shows "\<exists>out'. fst (article_handler P body calls) = Json out'
           \<and> get out' ''article'' = get out ''article''
           \<and> get out' ''metadata'' = get out ''metadata''
           \<and> prefix (gate_reasons out) (gate_reasons out')
           \<and> prefix (gate_claims out) (gate_claims out')"
proof -
  from conforming_paths [OF assms(4)] obtain html rs cs
    where html: "path out [''article'', ''articleHtmlContent''] = Some (JStr html)"
      and rs: "path out [''gate'', ''reasons''] = Some (JArr rs)"
      and cs: "path out [''gate'', ''claimsNeedingCitations''] = Some (JArr cs)"
    by blast
  from post_validate_reads [OF html rs cs, of P] obtain out' rs' cs'
    where run: "post_validate P out = Inr out'"
      and r: "path out' [''gate'', ''reasons''] = Some (JArr (rs @ rs'))"
      and c: "path out' [''gate'', ''claimsNeedingCitations''] = Some (JArr (cs @ cs'))"
      and a: "get out' ''article'' = get out ''article''"
      and m: "get out' ''metadata'' = get out ''metadata''"
    by blast
  have "fst (article_handler P body calls) = Json out'"
    unfolding handler_after_generation [OF assms(1,2)] by (simp add: assms(3) run)
  moreover have "prefix (gate_reasons out) (gate_reasons out')"
    unfolding gate_reasons_def r rs by (simp add: elements_def)
  moreover have "prefix (gate_claims out) (gate_claims out')"
    unfolding gate_claims_def c cs by (simp add: elements_def)
  ultimately show ?thesis
    using a m by blast
qed

theorem post_validation_appends_only_witness:
  "pre_validate (stub_platform (Inr sample_response) (Inr (sample_result (asc ''<p>Disclaimer</p>''))))
     sample_request = Inr []
   \<and> conforming (sample_result (asc ''<p>Disclaimer</p>''))
   \<and> (\<exists>out'. fst (article_handler
                     (stub_platform (Inr sample_response)
                        (Inr (sample_result (asc ''<p>Disclaimer</p>''))))
                     (Some sample_request) []) = Json out'
           \<and> get out' ''article'' = get (sample_result (asc ''<p>Disclaimer</p>'')) ''article''
           \<and> get out' ''metadata'' = get (sample_result (asc ''<p>Disclaimer</p>'')) ''metadata''
           \<and> prefix (gate_reasons (sample_result (asc ''<p>Disclaimer</p>''))) (gate_reasons out')
           \<and> prefix (gate_claims (sample_result (asc ''<p>Disclaimer</p>''))) (gate_claims out'))"
proof -
  define P where
    "P = stub_platform (Inr sample_response) (Inr (sample_result (asc ''<p>Disclaimer</p>'')))"
  have pre: "pre_validate P (or_default P (Some sample_request) (JObj [])) = Inr []"
    unfolding sample_request_body P_def by (rule sample_request_passes)
  obtain user where user: "ARTICLE_USER P (or_default P (Some sample_request) (JObj [])) = Inr user"
    unfolding sample_request_body using sample_request_prompt by blast
  have gen: "fst (gpt5Structured P SYS_COMMON user articleSchema [])
               = Inr (sample_result (asc ''<p>Disclaimer</p>''))"
    unfolding P_def by (rule sample_generation)
  have c: "conforming (sample_result (asc ''<p>Disclaimer</p>''))"
    by (rule conforming_sample)
  from post_validation_appends_only [OF pre user gen c] pre c show ?thesis
    unfolding sample_request_body P_def by blast
qed

text \<open>
  C9. Two runs of the checks on conforming results with the same article, each starting
  from a gate without reasons and claims, end with the same reasons and the same claims,
  whatever the platforms, the metadata and the reported \<^verbatim>\<open>blocked\<close> of the two runs.
\<close>

theorem checks_deterministic:
  assumes "conforming out1" and "conforming out2"
    and "get out1 ''article'' = get out2 ''article''"
    and "gate_reasons out1 = []" and "gate_claims out1 = []"
    and "gate_reasons out2 = []" and "gate_claims out2 = []"
  shows "\<exists>res1 res2. post_validate P1 out1 = Inr res1 \<and> post_validate P2 out2 = Inr res2
           \<and> gate_reasons res1 = gate_reasons res2 \<and> gate_claims res1 = gate_claims res2"
proof -
  from conforming_paths [OF assms(1)] obtain html rs cs
    where html: "path out1 [''article'', ''articleHtmlContent''] = Some (JStr html)"
      and rs: "path out1 [''gate'', ''reasons''] = Some (JArr rs)"
      and cs: "path out1 [''gate'', ''claimsNeedingCitations''] = Some (JArr cs)"
    by blast
  from conforming_paths [OF assms(2)] obtain rs2 cs2
    where rs2: "path out2 [''gate'', ''reasons''] = Some (JArr rs2)"
      and cs2: "path out2 [''gate'', ''claimsNeedingCitations''] = Some (JArr cs2)"
    by blast
  have same: "path out2 (''article'' # ks) = path out1 (''article'' # ks)" for ks
    by (simp add: assms(3))
  have html2: "path out2 [''article'', ''articleHtmlContent''] = Some (JStr html)"
    unfolding same by (rule html)
  have e: "rs = []" "cs = []" "rs2 = []" "cs2 = []"
    using assms(4-7) rs cs rs2 cs2
    by (simp_all add: gate_reasons_def gate_claims_def elements_def del: path.simps)
  from post_validate_reads [OF html rs cs, of P1] obtain res1
    where run1: "post_validate P1 out1 = Inr res1"
      and r1: "path res1 [''gate'', ''reasons'']
                 = Some (JArr (rs @ map JStr (structural_reasons html
                                                (path out1 [''article'', ''secondaryKeywords'']))))"
      and c1: "path res1 [''gate'', ''claimsNeedingCitations'']
                 = Some (JArr (cs @ map JStr (uncited_claims html)))"
    by blast
  from post_validate_reads [OF html2 rs2 cs2, of P2] obtain res2
    where run2: "post_validate P2 out2 = Inr res2"
      and r2: "path res2 [''gate'', ''reasons'']
                 = Some (JArr (rs2 @ map JStr (structural_reasons html
                                                 (path out2 [''article'', ''secondaryKeywords'']))))"
      and c2: "path res2 [''gate'', ''claimsNeedingCitations'']
                 = Some (JArr (cs2 @ map JStr (uncited_claims html)))"
    by blast
  have "gate_reasons res1 = gate_reasons res2"
    unfolding gate_reasons_def r1 r2 e same ..
  moreover have "gate_claims res1 = gate_claims res2"
    unfolding gate_claims_def c1 c2 e ..
  ultimately show ?thesis
    using run1 run2 by blast
qed

theorem checks_deterministic_witness:
  "conforming (sample_result (asc ''<p>Disclaimer</p>''))
   \<and> gate_reasons (sample_result (asc ''<p>Disclaimer</p>'')) = []
   \<and> gate_claims (sample_result (asc ''<p>Disclaimer</p>'')) = []
   \<and> (\<exists>res1 res2.
         post_validate (stub_platform (Inr sample_response) (Inl (Failure [])))
           (sample_result (asc ''<p>Disclaimer</p>'')) = Inr res1
         \<and> post_validate (stub_platform (Inl (Failure [])) (Inl (Failure [])))
             (sample_result (asc ''<p>Disclaimer</p>'')) = Inr res2
         \<and> gate_reasons res1 = gate_reasons res2 \<and> gate_claims res1 = gate_claims res2)"
proof -
  have c: "conforming (sample_result (asc ''<p>Disclaimer</p>''))"
    by (rule conforming_sample)
  have r: "gate_reasons (sample_result (asc ''<p>Disclaimer</p>'')) = []"
    by (simp add: gate_reasons_def sample_result_def elements_def asc_def)
  have k: "gate_claims (sample_result (asc ''<p>Disclaimer</p>'')) = []"
    by (simp add: gate_claims_def sample_result_def elements_def asc_def)
  from checks_deterministic [OF c c refl r k r k] c r k show ?thesis
    by blast
qed

end
